theory Spec2Isabelle
  imports Complex_Main "HOL-Library.Word" "HOL-Library.Log_Nat"
begin

unbundle bit_operations_syntax

section \<open>ptdump: the packet dumper of the processor-trace library\<close>

text \<open>
  The model follows \<^verbatim>\<open>ptdump/src/ptdump.c\<close>. The decoder, the last-IP tracker, the
  packet printers and the C library's \<^verbatim>\<open>vprintf\<close> are not part of that file: they are
  parameters of the model (the records \<open>pt_error_code\<close> and \<open>pt_library\<close> below), so every
  theorem holds for any behaviour of theirs unless it states a hypothesis about them.
\<close>

subsection \<open>Options\<close>

definition ptd_show_offset :: "32 word" where "ptd_show_offset = push_bit 0 1"
definition ptd_show_raw_bytes :: "32 word" where "ptd_show_raw_bytes = push_bit 1 1"
definition ptd_show_last_ip :: "32 word" where "ptd_show_last_ip = push_bit 2 1"
definition ptd_fixed_offset_width :: "32 word" where "ptd_fixed_offset_width = push_bit 3 1"
definition ptd_use_cpu :: "32 word" where "ptd_use_cpu = push_bit 4 1"
definition ptd_quiet :: "32 word" where "ptd_quiet = push_bit 5 1"
definition ptd_no_pad :: "32 word" where "ptd_no_pad = push_bit 6 1"

text \<open>
  Modelled from the spec: \<^verbatim>\<open>struct pt_cpu\<close> is declared in \<^verbatim>\<open>pt_cpu.h\<close>, which is not among
  the sources; the spec calls it "an optional CPU-identity value". Only its all-zero value
  (\<^verbatim>\<open>memset\<close>) and its assignment are used here.
\<close>

record pt_cpu =
  cpu_vendor :: nat
  cpu_family :: nat
  cpu_model :: nat
  cpu_stepping :: nat

definition cpu_zero :: pt_cpu where
  "cpu_zero = \<lparr>cpu_vendor = 0, cpu_family = 0, cpu_model = 0, cpu_stepping = 0\<rparr>"

record ptdump_options =
  flags :: "32 word"
  cpu :: pt_cpu

subsection \<open>The interface of the library\<close>

text \<open>
  The enumerators of \<^verbatim>\<open>enum pt_error_code\<close> that the file names, as the integers they
  stand for. The enumeration is declared in \<^verbatim>\<open>intel-pt.h\<close>, which is not among the sources, so
  the values are parameters.
\<close>

record pt_error_code =
  pte_ok :: int
  pte_internal :: int
  pte_invalid :: int
  pte_bad_packet :: int
  pte_eos :: int
  pte_nomem :: int
  pte_noip :: int
  pte_ip_suppressed :: int

text \<open>
  Modelled from the spec: \<^verbatim>\<open>enum pt_packet_type\<close> is declared in \<^verbatim>\<open>intel-pt.h\<close>, which is not
  among the sources; the spec has "a fixed enumeration including at least: PAD and
  address-carrying variants TIP, TIP.PGE, TIP.PGD, FUP, plus others opaque to this core".
  These are the five enumerators the file names; \<open>ppt_other\<close> stands for every other one.
\<close>

datatype pt_packet_type = ppt_pad | ppt_tip | ppt_tip_pge | ppt_tip_pgd | ppt_fup | ppt_other nat

text \<open>
  Modelled from the spec: \<^verbatim>\<open>struct pt_packet\<close> is declared in \<^verbatim>\<open>intel-pt.h\<close>, which is not
  among the sources; the spec has "a type discriminant, a byte-length, and a type-specific
  payload". The byte length is a \<^verbatim>\<open>uint8_t\<close>, as the counter \<^verbatim>\<open>idx\<close> that \<^verbatim>\<open>dump\<close> runs up to
  it; the payload union is only handed on to the library.
\<close>

record 'p pt_packet =
  pkt_type :: pt_packet_type
  pkt_size :: "8 word"
  pkt_payload :: 'p

text \<open>
  Modelled from the spec: \<^verbatim>\<open>struct pt_config\<close> is declared in \<^verbatim>\<open>intel-pt.h\<close>, which is not
  among the sources. Of its fields \<^verbatim>\<open>dump\<close> sets the trace buffer \<^verbatim>\<open>[begin, end)\<close> and the cpu.
\<close>

record pt_config =
  cfg_trace :: "8 word list"
  cfg_cpu :: pt_cpu

text \<open>
  The functions of the library and of the C library that the file calls; none of them is
  among the sources, so each is a parameter. \<open>'d\<close> is the state of the packet decoder, \<open>'l\<close> the
  \<^verbatim>\<open>struct pt_last_ip\<close>, \<open>'o\<close> the state of the standard output stream, \<open>'p\<close> the payload
  union. A function that writes through a pointer returns the value written.
  \<open>pt_pkt_get_offset\<close>, \<open>pt_pkt_get_pos\<close> and \<open>pt_last_ip_query\<close> only read their state.
  \<open>pt_pkt_get_pos d i\<close> is the byte \<^verbatim>\<open>*(pt_pkt_get_pos(decoder) + i)\<close>.
  \<open>vprintf out text\<close> is the call with the format already expanded to \<open>text\<close>.
\<close>

record ('d, 'l, 'o, 'p) pt_library =
  pt_configure :: pt_cpu
  pt_pkt_alloc_decoder :: "pt_config \<Rightarrow> 'd option"
  pt_pkt_sync_forward :: "'d \<Rightarrow> int \<times> 'd"
  pt_pkt_get_offset :: "'d \<Rightarrow> int \<times> 64 word"
  pt_pkt_next :: "'d \<Rightarrow> int \<times> 'p pt_packet \<times> 'd"
  pt_pkt_get_pos :: "'d \<Rightarrow> nat \<Rightarrow> 8 word"
  pt_errcode :: "int \<Rightarrow> int"
  pt_errstr :: "int \<Rightarrow> string"
  pt_print_packet_type_str :: "'p pt_packet \<Rightarrow> string"
  pt_print_fill_payload_str :: "'p pt_packet \<Rightarrow> int \<times> string"
  pt_last_ip_init :: 'l
  pt_last_ip_update_ip :: "'l \<Rightarrow> 'p \<Rightarrow> pt_config \<Rightarrow> int \<times> 'l"
  pt_last_ip_query :: "'l \<Rightarrow> int \<times> 64 word"
  vprintf :: "'o \<Rightarrow> string \<Rightarrow> int \<times> 'o"

subsection \<open>Formatting\<close>

definition hex_digit :: "nat \<Rightarrow> char" where
  "hex_digit n = ''0123456789abcdef'' ! (n mod 16)"

fun hex_digits :: "nat \<Rightarrow> string" where
  "hex_digits n = (if n < 16 then [hex_digit n] else hex_digits (n div 16) @ [hex_digit n])"

definition fmt_hex :: "nat \<Rightarrow> nat \<Rightarrow> string" where
  \<comment> \<open>\<^verbatim>\<open>%0*x\<close> with a width: lowercase, padded with zeros on the left\<close>
  "fmt_hex width n = replicate (width - length (hex_digits n)) (CHR ''0'') @ hex_digits n"

definition fmt_pad :: "nat \<Rightarrow> string" where
  \<comment> \<open>\<^verbatim>\<open>%*c\<close> with a width and a blank\<close>
  "fmt_pad width = replicate (width - 1) (CHR '' '') @ '' ''"

definition newline :: string where
  "newline = [CHR 0x0A]"

subsection \<open>Diagnostics\<close>

definition diag :: "string \<Rightarrow> string" where
  "diag msg = ''[error: '' @ msg @ '']'' @ newline"

definition diag_pos :: "string \<Rightarrow> 64 word \<Rightarrow> string" where
  "diag_pos msg pos = ''['' @ hex_digits (unat pos) @ '': error: '' @ msg @ '']'' @ newline"

definition diag_err :: "('d, 'l, 'o, 'p) pt_library \<Rightarrow> string \<Rightarrow> int \<Rightarrow> string" where
  "diag_err L msg err = ''[error: '' @ msg @ '' ('' @ pt_errstr L err @ '')]'' @ newline"

definition diag_err_pos :: "('d, 'l, 'o, 'p) pt_library \<Rightarrow> string \<Rightarrow> int \<Rightarrow> 64 word \<Rightarrow> string" where
  "diag_err_pos L msg err pos =
     ''['' @ hex_digits (unat pos) @ '': error: '' @ msg @ '' ('' @ pt_errstr L err @ '')]'' @ newline"

subsection \<open>Printing\<close>

definition print ::
  "pt_error_code \<Rightarrow> ('d, 'l, 'o, 'p) pt_library \<Rightarrow> ptdump_options \<Rightarrow> 'o \<Rightarrow> string \<Rightarrow> int \<times> 'o" where
  "print E L options out text =
     (if flags options AND ptd_quiet \<noteq> 0 then (0, out)
      else let (ret, out') = vprintf L out text
           in if ret \<le> 0 then (- pte_internal E, out') else (ret, out'))"

subsection \<open>The width of the offset column\<close>

text \<open>
  \<^verbatim>\<open>for (idx = 63; idx > 0; --idx) if (highest_val & (1ull << idx)) break;\<close>
  The scan starts at bit 63 and stops at the first set bit, or at index 0.
\<close>

fun highest_idx :: "64 word \<Rightarrow> nat \<Rightarrow> nat" where
  "highest_idx highest_val 0 = 0"
| "highest_idx highest_val (Suc i) =
     (if highest_val AND push_bit (Suc i) 1 \<noteq> 0 then Suc i else highest_idx highest_val i)"

definition calc_col_offset_width :: "64 word \<Rightarrow> 32 word" where
  "calc_col_offset_width highest_val = of_nat (1 + highest_idx highest_val 63 div 4)"

definition print_col_separator ::
  "pt_error_code \<Rightarrow> ('d, 'l, 'o, 'p) pt_library \<Rightarrow> ptdump_options \<Rightarrow> 'o \<Rightarrow> 'o" where
  "print_col_separator E L options out = snd (print E L options out ''  '')"

definition fillup_column ::
  "pt_error_code \<Rightarrow> ('d, 'l, 'o, 'p) pt_library \<Rightarrow> ptdump_options \<Rightarrow> 'o \<Rightarrow> 32 word \<Rightarrow> 32 word \<Rightarrow> 'o" where
  "fillup_column E L options out actual_width col_width =
     (if actual_width \<ge> col_width then out
      else snd (print E L options out (fmt_pad (unat (col_width - actual_width)))))"

subsection \<open>The state of the dump loop\<close>

text \<open>
  The local variables of \<^verbatim>\<open>dump\<close> that live across iterations, with the two output
  streams. \<^verbatim>\<open>pos\<close>, \<^verbatim>\<open>packet\<close>, \<^verbatim>\<open>ret\<close> and \<^verbatim>\<open>str\<close> are written in every iteration before
  they are read and are bound locally.
\<close>

record ('d, 'l, 'o) dump_state =
  decoder :: 'd
  last_ip :: 'l
  errcode :: int
  col_offset_width_used :: "32 word"
  col_packettype_width_used :: "32 word"
  col_payload_width_used :: "32 word"
  stdout :: 'o
  stderr :: "string list"

text \<open>
  Where control goes next: to the label \<^verbatim>\<open>sync\<close>, to the head of the \<^verbatim>\<open>for\<close> loop, or to
  the label \<^verbatim>\<open>out\<close>, with the \<^verbatim>\<open>goto out\<close> that was taken.
\<close>

datatype exit_site = Exit_nomem | Exit_sync_error | Exit_offset_error | Exit_eos

datatype 's control = At_sync 's | At_loop 's | At_out exit_site 's

text \<open>Inside one iteration: \<^verbatim>\<open>goto sync\<close>, or go on with the next statement.\<close>

datatype 's flow = Goto_sync 's | Fallthrough 's

fun then_do :: "'s flow \<Rightarrow> ('s \<Rightarrow> 's flow) \<Rightarrow> 's flow" where
  "then_do (Goto_sync s) f = Goto_sync s"
| "then_do (Fallthrough s) f = f s"

fun flow_state :: "'s flow \<Rightarrow> 's" where
  "flow_state (Goto_sync s) = s"
| "flow_state (Fallthrough s) = s"

fun control_state :: "'s control \<Rightarrow> 's" where
  "control_state (At_sync s) = s"
| "control_state (At_loop s) = s"
| "control_state (At_out site s) = s"

definition col_packettype_width :: "32 word" where "col_packettype_width = 9"
definition col_payload_width :: "32 word" where "col_payload_width = 47"
definition col_offset_width_fixed :: "32 word" where "col_offset_width_fixed = 16"

definition col_offset_width :: "ptdump_options \<Rightarrow> 8 word list \<Rightarrow> 32 word" where
  "col_offset_width options trace =
     (if flags options AND ptd_fixed_offset_width \<noteq> 0 then col_offset_width_fixed
      else calc_col_offset_width (of_nat (length trace)))"

subsection \<open>Rendering one packet\<close>

text \<open>\<^verbatim>\<open>/* Print stream offset. */\<close>\<close>

definition print_offset ::
  "pt_error_code \<Rightarrow> ('d, 'l, 'o, 'p) pt_library \<Rightarrow> ptdump_options \<Rightarrow> 32 word \<Rightarrow> 64 word \<Rightarrow>
   ('d, 'l, 'o) dump_state \<Rightarrow> ('d, 'l, 'o) dump_state flow" where
  "print_offset E L options width pos s =
     (if flags options AND ptd_show_offset \<noteq> 0 then
        let (ret, out1) = print E L options (stdout s) (fmt_hex (unat width) (unat pos))
        in if ret < 0 then
             Goto_sync (s\<lparr>stdout := out1, stderr := stderr s @ [diag_pos ''cannot print offset'' pos],
                          errcode := - pte_internal E\<rparr>)
           else
             let used = word_of_int ret;
                 out2 = fillup_column E L options out1 used width;
                 out3 = print_col_separator E L options out2
             in Fallthrough (s\<lparr>stdout := out3, col_offset_width_used := used\<rparr>)
      else Fallthrough s)"

text \<open>\<^verbatim>\<open>/* Print packet type. */\<close>\<close>

definition print_packet_type ::
  "pt_error_code \<Rightarrow> ('d, 'l, 'o, 'p) pt_library \<Rightarrow> ptdump_options \<Rightarrow> 64 word \<Rightarrow> 'p pt_packet \<Rightarrow>
   ('d, 'l, 'o) dump_state \<Rightarrow> ('d, 'l, 'o) dump_state flow" where
  "print_packet_type E L options pos packet s =
     (let (ret, out1) = print E L options (stdout s) (pt_print_packet_type_str L packet)
      in if ret < 0 then
           Goto_sync (s\<lparr>stdout := out1, stderr := stderr s @ [diag_pos ''cannot print packet type'' pos],
                        errcode := - pte_internal E\<rparr>)
         else Fallthrough (s\<lparr>stdout := out1, col_packettype_width_used := word_of_int ret\<rparr>))"

text \<open>
  \<^verbatim>\<open>/* Print the packet payload. */\<close> The result of the last \<^verbatim>\<open>print\<close> is stored in the
  unsigned \<^verbatim>\<open>col_payload_width_used\<close> without a test.
\<close>

definition print_payload ::
  "pt_error_code \<Rightarrow> ('d, 'l, 'o, 'p) pt_library \<Rightarrow> ptdump_options \<Rightarrow> 64 word \<Rightarrow> 'p pt_packet \<Rightarrow>
   ('d, 'l, 'o) dump_state \<Rightarrow> ('d, 'l, 'o) dump_state flow" where
  "print_payload E L options pos packet s =
     (let (ret, str) = pt_print_fill_payload_str L packet
      in if ret < 0 then
           Goto_sync (s\<lparr>stderr := stderr s @ [diag_pos ''cannot print packet payload'' pos],
                        errcode := - pte_internal E\<rparr>)
         else
           let out1 = (if ret > 0 then
                         print_col_separator E L options
                           (fillup_column E L options (stdout s)
                              (col_packettype_width_used s) col_packettype_width)
                       else stdout s);
               (ret2, out2) = print E L options out1 str
           in Fallthrough (s\<lparr>stdout := out2, col_payload_width_used := word_of_int ret2\<rparr>))"

text \<open>
  \<^verbatim>\<open>/* Print last IP if requested and if packet type is an IP packet. */\<close>
  Both \<^verbatim>\<open>goto skip_last_ip_printing\<close> and the end of the block fall through.
\<close>

definition print_last_ip ::
  "pt_error_code \<Rightarrow> ('d, 'l, 'o, 'p) pt_library \<Rightarrow> ptdump_options \<Rightarrow> pt_config \<Rightarrow> 64 word \<Rightarrow>
   'p pt_packet \<Rightarrow> ('d, 'l, 'o) dump_state \<Rightarrow> ('d, 'l, 'o) dump_state flow" where
  "print_last_ip E L options config pos packet s =
     (if flags options AND ptd_show_last_ip \<noteq> 0 then
        if pkt_type packet \<in> {ppt_tip, ppt_tip_pge, ppt_tip_pgd, ppt_fup} then
          let (ret, lip) = pt_last_ip_update_ip L (last_ip s) (pkt_payload packet) config;
              s1 = s\<lparr>last_ip := lip\<rparr>
          in if ret = - pte_invalid E then
               Goto_sync (s1\<lparr>stderr := stderr s @
                               [diag_err_pos L ''failed to update last-IP'' (pte_invalid E) pos],
                             errcode := - pte_internal E\<rparr>)
             else if ret = - pte_bad_packet E then
               Goto_sync (s1\<lparr>stderr := stderr s @
                               [diag_err_pos L ''failed to update last-IP'' (pte_bad_packet E) pos],
                             errcode := - pte_bad_packet E\<rparr>)
             else if ret = - pte_noip E then Fallthrough s1
             else
               let (ret, ip) = pt_last_ip_query L lip
               in if ret = - pte_invalid E then
                    Goto_sync (s1\<lparr>stderr := stderr s @
                                    [diag_err_pos L ''cannot query last-IP'' (pte_invalid E) pos],
                                  errcode := - pte_internal E\<rparr>)
                  else if ret = - pte_noip E then Fallthrough s1
                  else
                    let (ret, out1) =
                          (if ret = - pte_ip_suppressed E then
                             print E L options (stdout s) '', ip=<suppressed>''
                           else if ret = 0 then
                             print E L options (stdout s) ('', ip=0x'' @ fmt_hex 16 (unat ip))
                           else (ret, stdout s))
                    in if ret < 0 then
                         Goto_sync (s1\<lparr>stdout := out1,
                                       stderr := stderr s @ [diag_pos ''cannot print last-IP'' pos],
                                       errcode := - pte_internal E\<rparr>)
                       else
                         Fallthrough (s1\<lparr>stdout := out1,
                                         col_payload_width_used :=
                                           col_payload_width_used s + word_of_int ret\<rparr>)
        else Fallthrough s
      else Fallthrough s)"

text \<open>
  \<^verbatim>\<open>/* Print raw packet bytes. */\<close> The loop counter is a \<^verbatim>\<open>uint8_t\<close>;
  \<^verbatim>\<open>idx != (packet.size - 1)\<close> is compared in \<^verbatim>\<open>int\<close>.
\<close>

function raw_bytes_loop ::
  "pt_error_code \<Rightarrow> ('d, 'l, 'o, 'p) pt_library \<Rightarrow> ptdump_options \<Rightarrow> 'd \<Rightarrow> 8 word \<Rightarrow> 8 word \<Rightarrow>
   'o \<Rightarrow> 'o" where
  "raw_bytes_loop E L options d sz idx out =
     (if idx < sz then
        let u = pt_pkt_get_pos L d (unat idx);
            out1 = snd (print E L options out (fmt_hex 2 (unat u)));
            out2 = (if uint idx \<noteq> uint sz - 1 then snd (print E L options out1 '' '') else out1)
        in raw_bytes_loop E L options d sz (idx + 1) out2
      else out)"
  by pat_completeness auto
termination
proof (relation "measure (\<lambda>(E, L, options, d, sz, idx, out). unat sz - unat idx)", goal_cases)
  case 1
  show ?case by simp
next
  case (2 E L options d sz idx out u out1 out2)
  then have lt: "idx < sz" by simp
  have "idx + 1 \<noteq> 0"
  proof
    assume "idx + 1 = 0"
    then have "idx = - 1" by (simp add: add_eq_0_iff2)
    with lt show False by simp
  qed
  then have "unat (idx + 1) = Suc (unat idx)"
    using unatSuc [of idx] by (simp add: add.commute)
  with lt show ?case
    by (simp add: word_less_nat_alt)
qed

definition print_raw_bytes ::
  "pt_error_code \<Rightarrow> ('d, 'l, 'o, 'p) pt_library \<Rightarrow> ptdump_options \<Rightarrow> 'd \<Rightarrow> 'p pt_packet \<Rightarrow> 'o \<Rightarrow> 'o" where
  "print_raw_bytes E L options d packet out =
     snd (print E L options
            (raw_bytes_loop E L options d (pkt_size packet) 0 (snd (print E L options out ''[''))) '']'')"

definition print_raw ::
  "pt_error_code \<Rightarrow> ('d, 'l, 'o, 'p) pt_library \<Rightarrow> ptdump_options \<Rightarrow> 'p pt_packet \<Rightarrow>
   ('d, 'l, 'o) dump_state \<Rightarrow> ('d, 'l, 'o) dump_state flow" where
  "print_raw E L options packet s =
     (if flags options AND ptd_show_raw_bytes \<noteq> 0 then
        let out1 = (if col_payload_width_used s = 0 then
                      print_col_separator E L options
                        (fillup_column E L options (stdout s)
                           (col_packettype_width_used s) col_packettype_width)
                    else stdout s);
            out2 = fillup_column E L options out1 (col_payload_width_used s) col_payload_width;
            out3 = print_col_separator E L options out2
        in Fallthrough (s\<lparr>stdout := print_raw_bytes E L options (decoder s) packet out3\<rparr>)
      else Fallthrough s)"

text \<open>\<^verbatim>\<open>/* End of information printing for this packet. */\<close>\<close>

definition print_newline ::
  "pt_error_code \<Rightarrow> ('d, 'l, 'o, 'p) pt_library \<Rightarrow> ptdump_options \<Rightarrow>
   ('d, 'l, 'o) dump_state \<Rightarrow> ('d, 'l, 'o) dump_state flow" where
  "print_newline E L options s = Fallthrough (s\<lparr>stdout := snd (print E L options (stdout s) newline)\<rparr>)"

text \<open>The statements of one iteration from \<^verbatim>\<open>/* Print stream offset. */\<close> to its end.\<close>

definition render_packet ::
  "pt_error_code \<Rightarrow> ('d, 'l, 'o, 'p) pt_library \<Rightarrow> ptdump_options \<Rightarrow> pt_config \<Rightarrow> 32 word \<Rightarrow>
   64 word \<Rightarrow> 'p pt_packet \<Rightarrow> ('d, 'l, 'o) dump_state \<Rightarrow> ('d, 'l, 'o) dump_state flow" where
  "render_packet E L options config width pos packet s =
     then_do (then_do (then_do (then_do (then_do
       (print_offset E L options width pos s)
       (print_packet_type E L options pos packet))
       (print_payload E L options pos packet))
       (print_last_ip E L options config pos packet))
       (print_raw E L options packet))
       (print_newline E L options)"

subsection \<open>The dump loop\<close>

text \<open>The statements at the label \<^verbatim>\<open>sync\<close>, up to the head of the loop.\<close>

definition dump_sync ::
  "('d, 'l, 'o, 'p) pt_library \<Rightarrow> ('d, 'l, 'o) dump_state \<Rightarrow> ('d, 'l, 'o) dump_state control" where
  "dump_sync L s =
     (let (errcode1, d1) = pt_pkt_sync_forward L (decoder s)
      in if errcode1 < 0 then
           let (errcode2, offset) = pt_pkt_get_offset L d1
           in At_out Exit_sync_error
                (s\<lparr>decoder := d1, errcode := errcode1,
                   stderr := stderr s @
                     (if errcode2 < 0 then
                        [diag_err L ''sync error'' (pt_errcode L errcode1),
                         diag_err L ''could not determine offset'' (pt_errcode L errcode2)]
                      else [diag_err_pos L ''sync error'' (pt_errcode L errcode1) offset])\<rparr>)
         else At_loop (s\<lparr>decoder := d1, errcode := errcode1, last_ip := pt_last_ip_init L\<rparr>))"

text \<open>One iteration of \<^verbatim>\<open>for (;;)\<close>.\<close>

definition dump_iter ::
  "pt_error_code \<Rightarrow> ('d, 'l, 'o, 'p) pt_library \<Rightarrow> ptdump_options \<Rightarrow> pt_config \<Rightarrow> 32 word \<Rightarrow>
   ('d, 'l, 'o) dump_state \<Rightarrow> ('d, 'l, 'o) dump_state control" where
  "dump_iter E L options config width s =
     (let (errcode1, pos) = pt_pkt_get_offset L (decoder s)
      in if errcode1 < 0 then
           At_out Exit_offset_error
             (s\<lparr>errcode := errcode1,
                stderr := stderr s @ [diag_err L ''determining offset failed'' (pt_errcode L errcode1)]\<rparr>)
         else
           let (ret, packet, d1) = pt_pkt_next L (decoder s);
               s1 = s\<lparr>decoder := d1, errcode := errcode1\<rparr>
           in if pt_errcode L ret = pte_eos E then At_out Exit_eos s1
              else if pt_errcode L ret \<noteq> pte_ok E then
                At_sync (s1\<lparr>errcode := ret,
                            stderr := stderr s @
                              [diag_err_pos L ''packet decoding failed'' (pt_errcode L ret) pos]\<rparr>)
              else if pkt_size packet = 0 then
                At_sync (s1\<lparr>errcode := - pte_bad_packet E,
                            stderr := stderr s @
                              [diag_pos ''packet decoding failed, packet size is reported to be 0'' pos]\<rparr>)
              else if pkt_type packet = ppt_pad \<and> flags options AND ptd_no_pad \<noteq> 0 then At_loop s1
              else (case render_packet E L options config width pos packet s1 of
                      Goto_sync s2 \<Rightarrow> At_sync s2
                    | Fallthrough s2 \<Rightarrow> At_loop s2))"

definition dump_step ::
  "pt_error_code \<Rightarrow> ('d, 'l, 'o, 'p) pt_library \<Rightarrow> ptdump_options \<Rightarrow> pt_config \<Rightarrow> 32 word \<Rightarrow>
   ('d, 'l, 'o) dump_state control \<Rightarrow> ('d, 'l, 'o) dump_state control" where
  "dump_step E L options config width c =
     (case c of
        At_sync s \<Rightarrow> dump_sync L s
      | At_loop s \<Rightarrow> dump_iter E L options config width s
      | At_out site s \<Rightarrow> At_out site s)"

text \<open>
  The loop may run for ever (a decoder that never reports the end of the stream): the run
  takes fuel, one unit for each pass through \<^verbatim>\<open>sync\<close> or the loop body, and is \<open>None\<close> when
  the fuel does not reach the label \<^verbatim>\<open>out\<close>.
\<close>

fun dump_run ::
  "pt_error_code \<Rightarrow> ('d, 'l, 'o, 'p) pt_library \<Rightarrow> ptdump_options \<Rightarrow> pt_config \<Rightarrow> 32 word \<Rightarrow> nat \<Rightarrow>
   ('d, 'l, 'o) dump_state control \<Rightarrow> (exit_site \<times> ('d, 'l, 'o) dump_state) option" where
  "dump_run E L options config width fuel (At_out site s) = Some (site, s)"
| "dump_run E L options config width 0 c = None"
| "dump_run E L options config width (Suc fuel) c =
     dump_run E L options config width fuel (dump_step E L options config width c)"

text \<open>
  What \<^verbatim>\<open>dump\<close> leaves behind: the \<^verbatim>\<open>goto out\<close> taken, the value returned and the two
  streams.
\<close>

record 'o dump_result =
  exit_at :: exit_site
  returned :: int
  stdout_after :: 'o
  stderr_after :: "string list"

text \<open>
  \<^verbatim>\<open>dump(begin, end, options)\<close>. \<open>lip0\<close> is the content of the uninitialised local
  \<^verbatim>\<open>last_ip\<close>; \<open>out\<close> and \<open>err\<close> are the two streams at the call.
\<close>

definition dump ::
  "pt_error_code \<Rightarrow> ('d, 'l, 'o, 'p) pt_library \<Rightarrow> 8 word list \<Rightarrow> ptdump_options \<Rightarrow> nat \<Rightarrow> 'l \<Rightarrow>
   'o \<Rightarrow> string list \<Rightarrow> 'o dump_result option" where
  "dump E L trace options fuel lip0 out err =
     (let width = col_offset_width options trace;
          config0 = \<lparr>cfg_trace = trace, cfg_cpu = pt_configure L\<rparr>;
          config = (if flags options AND ptd_use_cpu \<noteq> 0 then config0\<lparr>cfg_cpu := cpu options\<rparr>
                    else config0)
      in case pt_pkt_alloc_decoder L config of
           None \<Rightarrow>
             Some \<lparr>exit_at = Exit_nomem, returned = - pte_nomem E, stdout_after = out,
                   stderr_after = err @ [diag ''cannot allocate decoder'']\<rparr>
         | Some d \<Rightarrow>
             map_option
               (\<lambda>(site, s). \<lparr>exit_at = site, returned = errcode s, stdout_after = stdout s,
                              stderr_after = stderr s\<rparr>)
               (dump_run E L options config width fuel
                  (At_sync \<lparr>decoder = d, last_ip = lip0, errcode = 0,
                            col_offset_width_used = 0, col_packettype_width_used = 0,
                            col_payload_width_used = 0, stdout = out, stderr = err\<rparr>)))"

subsection \<open>The command line\<close>

text \<open>
  \<^verbatim>\<open>argv[idx]\<close> for \<^verbatim>\<open>idx < argc\<close> is a string, and \<^verbatim>\<open>argv[argc]\<close> is a null pointer; the
  model reads the argument vector through \<open>argv_at\<close>, which is \<open>None\<close> from \<^verbatim>\<open>argc\<close> on.
\<close>

definition argv_at :: "string list \<Rightarrow> nat \<Rightarrow> string option" where
  "argv_at argv idx = (if idx < length argv then Some (argv ! idx) else None)"

text \<open>The values returned by \<^verbatim>\<open>usage\<close>, \<^verbatim>\<open>no_file_error\<close>, \<^verbatim>\<open>help\<close> (here \<open>help_opt\<close>)
  and \<^verbatim>\<open>version\<close>.\<close>

definition usage :: int where "usage = - 1"
definition no_file_error :: int where "no_file_error = - 1"
definition help_opt :: int where "help_opt = 0"
definition version :: int where "version = 0"

text \<open>
  How the argument loop of \<^verbatim>\<open>main\<close> ends: \<^verbatim>\<open>main\<close> returns a value, the loop is left with the
  options and the trace file (if one was named), or \<^verbatim>\<open>strcmp\<close> is called on the null pointer
  \<^verbatim>\<open>argv[argc]\<close>.
\<close>

datatype args_result =
    Main_returns int
  | Args_done ptdump_options "string option"
  | Strcmp_null_pointer

function parse_args ::
  "(string \<Rightarrow> int \<times> pt_cpu) \<Rightarrow> string list \<Rightarrow> nat \<Rightarrow> ptdump_options \<Rightarrow> args_result" where
  "parse_args pt_cpu_parse argv idx options =
     (case argv_at argv idx of
        None \<Rightarrow> Args_done options None
      | Some a \<Rightarrow>
          if take 1 a \<noteq> ''-'' then
            (if int idx < int (length argv) - 1 then Main_returns usage
             else Args_done options (Some a))
          else if a = ''-h'' then Main_returns help_opt
          else if a = ''--help'' then Main_returns help_opt
          else if a = ''--version'' then Main_returns version
          else if a = ''--quiet'' then
            parse_args pt_cpu_parse argv (idx + 1) (options\<lparr>flags := flags options OR ptd_quiet\<rparr>)
          else if a = ''--no-pad'' then
            parse_args pt_cpu_parse argv (idx + 1) (options\<lparr>flags := flags options OR ptd_no_pad\<rparr>)
          else if a = ''--no-offset'' then
            parse_args pt_cpu_parse argv (idx + 1)
              (options\<lparr>flags := flags options AND NOT ptd_show_offset\<rparr>)
          else if a = ''--raw'' then
            parse_args pt_cpu_parse argv (idx + 1)
              (options\<lparr>flags := flags options OR ptd_show_raw_bytes\<rparr>)
          else if a = ''--lastip'' then
            parse_args pt_cpu_parse argv (idx + 1)
              (options\<lparr>flags := flags options OR ptd_show_last_ip\<rparr>)
          else if a = ''--fixed-offset-width'' then
            parse_args pt_cpu_parse argv (idx + 1)
              (options\<lparr>flags := flags options OR ptd_fixed_offset_width\<rparr>)
          else if a = ''--cpu'' then
            (case argv_at argv (idx + 1) of
               None \<Rightarrow> Strcmp_null_pointer
             | Some arg \<Rightarrow>
                 if arg = ''auto'' then
                   parse_args pt_cpu_parse argv (idx + 2)
                     (options\<lparr>flags := flags options AND NOT ptd_use_cpu\<rparr>)
                 else if arg = ''none'' then
                   parse_args pt_cpu_parse argv (idx + 2)
                     (options\<lparr>flags := flags options OR ptd_use_cpu, cpu := cpu_zero\<rparr>)
                 else
                   let (errcode1, cpu1) = pt_cpu_parse arg
                   in if errcode1 < 0 then Main_returns 1
                      else parse_args pt_cpu_parse argv (idx + 2)
                             (options\<lparr>flags := flags options OR ptd_use_cpu, cpu := cpu1\<rparr>))
          else Main_returns usage)"
  by pat_completeness auto
termination
  by (relation "measure (\<lambda>(pt_cpu_parse, argv, idx, options). length argv - idx)")
     (auto simp: argv_at_def split: if_splits)

definition options_init :: ptdump_options where
  "options_init = \<lparr>flags = (0 OR ptd_show_offset) OR ptd_use_cpu, cpu = cpu_zero\<rparr>"

text \<open>
  \<^verbatim>\<open>main\<close>: \<open>map_pt\<close> reads the trace file (\<open>None\<close> for its null result). The result is \<open>None\<close>
  when the fuel given to \<^verbatim>\<open>dump\<close> runs out.
\<close>

datatype main_result = Exit_status int | Undefined_behaviour

definition main ::
  "pt_error_code \<Rightarrow> ('d, 'l, 'o, 'p) pt_library \<Rightarrow> (string \<Rightarrow> int \<times> pt_cpu) \<Rightarrow>
   (string \<Rightarrow> 8 word list option) \<Rightarrow> string list \<Rightarrow> nat \<Rightarrow> 'l \<Rightarrow> 'o \<Rightarrow> main_result option" where
  "main E L pt_cpu_parse map_pt argv fuel lip0 out =
     (case parse_args pt_cpu_parse argv 1 options_init of
        Main_returns r \<Rightarrow> Some (Exit_status r)
      | Strcmp_null_pointer \<Rightarrow> Some Undefined_behaviour
      | Args_done options None \<Rightarrow> Some (Exit_status no_file_error)
      | Args_done options (Some ptfile) \<Rightarrow>
          (case map_pt ptfile of
             None \<Rightarrow> Some (Exit_status (- 1))
           | Some pt \<Rightarrow>
               map_option (\<lambda>r. Exit_status (- returned r)) (dump E L pt options fuel lip0 out [])))"

subsection \<open>A scripted instance of the library\<close>

text \<open>
  To run the model on concrete traces, an instance of the interface: the decoder state is the
  current offset with the packets still to come (\<open>None\<close> for a byte that is no packet), the
  payload is a number, and the last-IP state is the last payload seen (0 for no IP, 1 for a
  suppressed one). \<open>sample_library bad items\<close> decodes the packets \<open>items\<close> whatever the buffer
  holds, and its output stream refuses the texts in \<open>bad\<close>. The error codes are the positions of the enumerators in the library's header.
\<close>

definition sample_codes :: pt_error_code where
  "sample_codes = \<lparr>pte_ok = 0, pte_internal = 1, pte_invalid = 2, pte_bad_packet = 5, pte_eos = 7,
                    pte_nomem = 9, pte_noip = 11, pte_ip_suppressed = 12\<rparr>"

type_synonym sample_decoder = "nat \<times> nat pt_packet option list"

definition stream_write :: "string \<Rightarrow> string \<Rightarrow> int \<times> string" where
  \<comment> \<open>\<^verbatim>\<open>vprintf\<close> on a stream that takes every write\<close>
  "stream_write out text = (int (length text), out @ text)"

definition stream_write_failing :: "string list \<Rightarrow> string \<Rightarrow> string \<Rightarrow> int \<times> string" where
  \<comment> \<open>\<^verbatim>\<open>vprintf\<close> on a stream that refuses the texts in \<open>bad\<close>\<close>
  "stream_write_failing bad out text = (if text \<in> set bad then (- 1, out) else stream_write out text)"

definition sample_packet :: "pt_packet_type \<Rightarrow> nat \<Rightarrow> nat \<Rightarrow> nat pt_packet" where
  "sample_packet t n v = \<lparr>pkt_type = t, pkt_size = of_nat n, pkt_payload = v\<rparr>"

definition sample_sync_forward :: "sample_decoder \<Rightarrow> int \<times> sample_decoder" where
  "sample_sync_forward d =
     (let rest = dropWhile (\<lambda>x. x = None) (snd d);
          d1 = (fst d + (length (snd d) - length rest), rest)
      in if rest = [] \<and> snd d \<noteq> [] then (- 7, d1) else (0, d1))"

definition sample_next :: "sample_decoder \<Rightarrow> int \<times> nat pt_packet \<times> sample_decoder" where
  "sample_next d =
     (case snd d of
        [] \<Rightarrow> (- 7, sample_packet ppt_pad 0 0, d)
      | None # rest \<Rightarrow> (- 4, sample_packet ppt_pad 0 0, d)
      | Some p # rest \<Rightarrow> (uint (pkt_size p), p, (fst d + unat (pkt_size p), rest)))"

definition sample_type_str :: "nat pt_packet \<Rightarrow> string" where
  "sample_type_str p =
     (case pkt_type p of
        ppt_pad \<Rightarrow> ''pad'' | ppt_tip \<Rightarrow> ''tip'' | ppt_tip_pge \<Rightarrow> ''tip.pge''
      | ppt_tip_pgd \<Rightarrow> ''tip.pgd'' | ppt_fup \<Rightarrow> ''fup'' | ppt_other n \<Rightarrow> ''psb'')"

definition sample_payload_str :: "nat pt_packet \<Rightarrow> int \<times> string" where
  "sample_payload_str p =
     (if pkt_type p = ppt_pad then (0, [])
      else (int (length (hex_digits (pkt_payload p))), hex_digits (pkt_payload p)))"

definition sample_last_ip_query :: "nat \<Rightarrow> int \<times> 64 word" where
  "sample_last_ip_query l = (if l = 0 then (- 11, 0) else if l = 1 then (- 12, 0) else (0, of_nat l))"

definition sample_library ::
  "string list \<Rightarrow> nat pt_packet option list \<Rightarrow> (sample_decoder, nat, string, nat) pt_library" where
  "sample_library bad items =
     \<lparr>pt_configure = cpu_zero,
      pt_pkt_alloc_decoder = (\<lambda>config. Some (0, items)),
      pt_pkt_sync_forward = sample_sync_forward,
      pt_pkt_get_offset = (\<lambda>d. (0, of_nat (fst d))),
      pt_pkt_next = sample_next,
      pt_pkt_get_pos = (\<lambda>d i. of_nat (fst d + i)),
      pt_errcode = (\<lambda>status. if 0 \<le> status then 0 else - status),
      pt_errstr = (\<lambda>err. ''error''),
      pt_print_packet_type_str = sample_type_str,
      pt_print_fill_payload_str = sample_payload_str,
      pt_last_ip_init = 0,
      pt_last_ip_update_ip = (\<lambda>l v config. (0, v)),
      pt_last_ip_query = sample_last_ip_query,
      vprintf = stream_write_failing bad\<rparr>"

definition sample_state :: "nat pt_packet option list \<Rightarrow> (sample_decoder, nat, string) dump_state" where
  "sample_state items =
     \<lparr>decoder = (0, items), last_ip = 0, errcode = 0, col_offset_width_used = 0,
      col_packettype_width_used = 0, col_payload_width_used = 0, stdout = [], stderr = []\<rparr>"

definition sample_config :: pt_config where
  "sample_config = \<lparr>cfg_trace = [], cfg_cpu = cpu_zero\<rparr>"

subsection \<open>An instance that decodes the buffer\<close>





subsection \<open>Comparing states and texts\<close>

text \<open>A state with its three used widths forgotten.\<close>

definition forget_widths :: "('d, 'l, 'o) dump_state \<Rightarrow> ('d, 'l, 'o) dump_state" where
  "forget_widths s =
     s\<lparr>col_offset_width_used := 0, col_packettype_width_used := 0, col_payload_width_used := 0\<rparr>"

fun map_flow :: "('s \<Rightarrow> 's) \<Rightarrow> 's flow \<Rightarrow> 's flow" where
  "map_flow f (Goto_sync s) = Goto_sync (f s)"
| "map_flow f (Fallthrough s) = Fallthrough (f s)"

fun map_control :: "('s \<Rightarrow> 's) \<Rightarrow> 's control \<Rightarrow> 's control" where
  "map_control f (At_sync s) = At_sync (f s)"
| "map_control f (At_loop s) = At_loop (f s)"
| "map_control f (At_out site s) = At_out site (f s)"


definition lower_hex :: "char set" where
  "lower_hex = set ''0123456789abcdef''"

section \<open>Properties\<close>

declare hex_digits.simps [simp del]
declare raw_bytes_loop.simps [simp del]
declare parse_args.simps [simp del]

subsection \<open>The width of the offset column\<close>

lemma highest_idx_le: "highest_idx v n \<le> n"
  by (induction n) auto

lemma highest_idx_zero: "highest_idx 0 n = 0"
  by (induction n) auto

lemma highest_idx_bit: "highest_idx v n \<noteq> 0 \<Longrightarrow> bit v (highest_idx v n)"
  by (induction n) (auto simp: bit_iff_and_push_bit_not_eq_0)

lemma highest_idx_above: "highest_idx v n < k \<Longrightarrow> k \<le> n \<Longrightarrow> \<not> bit v k"
  by (induction n) (auto simp: bit_iff_and_push_bit_not_eq_0 le_Suc_eq split: if_splits)

lemma bit_le_unat: "bit (v::64 word) i \<Longrightarrow> 2 ^ i \<le> unat v"
proof -
  assume "bit v i"
  then have "bit (unat v) i" by (simp add: bit_unsigned_iff)
  then show ?thesis
    by (metis bit_iff_odd div_less not_le_imp_less dvd_0_right)
qed

lemma clear_above_less:
  assumes "\<And>k. i < k \<Longrightarrow> k \<le> 63 \<Longrightarrow> \<not> bit (v::64 word) k"
  shows "unat v < 2 ^ Suc i"
proof -
  have "take_bit (Suc i) v = v"
  proof (rule bit_eqI)
    fix n assume "possible_bit TYPE(64 word) n"
    then have "n < 64" by (simp add: possible_bit_word)
    then show "bit (take_bit (Suc i) v) n = bit v n"
      using assms[of n] by (cases "n < Suc i") (auto simp: bit_take_bit_iff)
  qed
  then have "unat v = take_bit (Suc i) (unat v)"
    by (metis unsigned_take_bit_eq)
  then show ?thesis
    by (metis take_bit_nat_less_exp)
qed

lemma highest_idx_bounds:
  "2 ^ highest_idx v 63 \<le> max (unat v) 1 \<and> max (unat v) 1 < 2 ^ Suc (highest_idx v 63)"
proof
  show "2 ^ highest_idx v 63 \<le> max (unat v) 1"
  proof (cases "highest_idx v 63 = 0")
    case True
    then show ?thesis by simp
  next
    case False
    then have "2 ^ highest_idx v 63 \<le> unat v" by (intro bit_le_unat highest_idx_bit)
    then show ?thesis by simp
  qed
  have "unat v < 2 ^ Suc (highest_idx v 63)"
    by (rule clear_above_less) (rule highest_idx_above)
  moreover have "(1::nat) < 2 ^ Suc (highest_idx v 63)"
    by (metis lessI one_less_numeral_iff one_less_power semiring_norm(76) zero_less_Suc)
  ultimately show "max (unat v) 1 < 2 ^ Suc (highest_idx v 63)" by simp
qed

lemma highest_idx_floorlog: "floorlog 2 (max (unat v) 1) = Suc (highest_idx v 63)"
proof -
  let ?x = "max (unat v) 1" and ?i = "highest_idx v 63"
  from highest_idx_bounds[of v] have lo: "2 ^ ?i \<le> ?x" and hi: "?x < 2 ^ Suc ?i" by auto
  have "Suc ?i \<le> floorlog 2 ?x" using lo by (intro floorlog_ge_SucI) auto
  moreover have "floorlog 2 ?x \<le> Suc ?i" using hi by (intro floorlog_leI) auto
  ultimately show ?thesis by simp
qed

lemma highest_idx_log: "nat \<lfloor>log 2 (real (max (unat v) 1))\<rfloor> = highest_idx v 63"
proof -
  have "0 < max (unat v) 1" by simp
  then have "floorlog 2 (max (unat v) 1) = nat \<lfloor>log 2 (real (max (unat v) 1))\<rfloor> + 1"
    unfolding floorlog_def by (simp del: max_less_iff_conj less_max_iff_disj)
  with highest_idx_floorlog[of v] show ?thesis by simp
qed

text \<open>
  Claim C3. For every buffer size \<open>S\<close> the width calculator returns
  \<open>1 + floor (log2 (max S 1) / 4)\<close>, which is \<open>1 + floor (idx / 4)\<close> for the index \<open>idx\<close> of
  the highest set bit of \<open>max S 1\<close> (the power of two with \<open>2 ^ idx \<le> max S 1 < 2 ^ (idx + 1)\<close>);
  the result is at least 1, and it is 1 for \<open>S = 0\<close>.
\<close>

theorem calc_col_offset_width_spec:
  "unat (calc_col_offset_width S) = 1 + nat \<lfloor>log 2 (real (max (unat S) 1)) / 4\<rfloor> \<and>
   unat (calc_col_offset_width S) = 1 + highest_idx S 63 div 4 \<and>
   2 ^ highest_idx S 63 \<le> max (unat S) 1 \<and> max (unat S) 1 < 2 * 2 ^ highest_idx S 63 \<and>
   1 \<le> unat (calc_col_offset_width S) \<and> calc_col_offset_width 0 = 1"
proof -
  have le: "highest_idx S 63 \<le> 63" by (rule highest_idx_le)
  then have "1 + highest_idx S 63 div 4 \<le> 16" by simp
  then have u: "unat (calc_col_offset_width S) = 1 + highest_idx S 63 div 4"
    unfolding calc_col_offset_width_def
    by (simp add: unat_of_nat take_bit_nat_eq_self del: of_nat_add of_nat_Suc)
  have nonneg: "0 \<le> log 2 (real (max (unat S) 1))" by simp
  have "\<lfloor>log 2 (real (max (unat S) 1)) / 4\<rfloor> = \<lfloor>log 2 (real (max (unat S) 1))\<rfloor> div 4"
    using floor_divide_real_eq_div[of 4 "log 2 (real (max (unat S) 1))"] by simp
  also have "\<dots> = int (highest_idx S 63) div 4"
    using highest_idx_log[of S] by (metis nonneg nat_0_le zero_le_floor)
  finally have "nat \<lfloor>log 2 (real (max (unat S) 1)) / 4\<rfloor> = highest_idx S 63 div 4"
    by (simp add: nat_div_distrib)
  with u highest_idx_bounds[of S] show ?thesis
    by (simp add: calc_col_offset_width_def highest_idx_zero)
qed

subsection \<open>Running the model on concrete inputs\<close>

lemma replicate_numeral: "replicate (numeral k) x = x # replicate (pred_numeral k) x"
  by (simp add: numeral_eq_Suc)

lemma dump_run_sync:
  "dump_run E L options config width (numeral k) (At_sync s) =
   dump_run E L options config width (pred_numeral k) (dump_sync L s)"
  by (simp add: numeral_eq_Suc dump_step_def)

lemma dump_run_loop:
  "dump_run E L options config width (numeral k) (At_loop s) =
   dump_run E L options config width (pred_numeral k) (dump_iter E L options config width s)"
  by (simp add: numeral_eq_Suc dump_step_def)

lemma dump_run_sync_Suc:
  "dump_run E L options config width (Suc k) (At_sync s) =
   dump_run E L options config width k (dump_sync L s)"
  by (simp add: dump_step_def)

lemma dump_run_loop_Suc:
  "dump_run E L options config width (Suc k) (At_loop s) =
   dump_run E L options config width k (dump_iter E L options config width s)"
  by (simp add: dump_step_def)

lemma col_offset_width_empty: "col_offset_width options_init [] = 1"
  by (simp add: col_offset_width_def calc_col_offset_width_def highest_idx_zero options_init_def
      ptd_show_offset_def ptd_use_cpu_def ptd_fixed_offset_width_def)

lemmas run_simps = dump_run_sync dump_run_loop dump_run_sync_Suc dump_run_loop_Suc

lemmas sample_defs = sample_codes_def sample_library_def sample_sync_forward_def sample_next_def
  sample_type_str_def sample_payload_str_def sample_last_ip_query_def sample_packet_def
  stream_write_def stream_write_failing_def sample_state_def sample_config_def

lemmas flag_defs = ptd_show_offset_def ptd_show_raw_bytes_def ptd_show_last_ip_def
  ptd_fixed_offset_width_def ptd_use_cpu_def ptd_quiet_def ptd_no_pad_def options_init_def

lemma hex_digits_numeral:
  "hex_digits (numeral k) =
     (if numeral k < (16::nat) then [hex_digit (numeral k)]
      else hex_digits (numeral k div 16) @ [hex_digit (numeral k)])"
  by (rule hex_digits.simps)

lemma hex_digits_small: "hex_digits 0 = ''0''" "hex_digits (Suc 0) = ''1''"
  by (simp_all add: hex_digits.simps hex_digit_def)

lemmas raw_bytes_loop_eval =
  raw_bytes_loop.simps [of _ _ _ _ "numeral a" 0]
  raw_bytes_loop.simps [of _ _ _ _ "numeral a" 1]
  raw_bytes_loop.simps [of _ _ _ _ "numeral a" "numeral b"]
  raw_bytes_loop.simps [of _ _ _ _ 1 0]
  raw_bytes_loop.simps [of _ _ _ _ 1 1]
  raw_bytes_loop.simps [of _ _ _ _ 1 "numeral b"]
  for a b

lemmas fmt_defs = fmt_hex_def hex_digits_numeral hex_digits_small hex_digit_def replicate_numeral
  fmt_pad_def newline_def diag_def diag_pos_def diag_err_def diag_err_pos_def

lemmas print_defs = print_def fillup_column_def print_col_separator_def
  col_offset_width_fixed_def col_packettype_width_def col_payload_width_def

lemmas phase_defs = print_offset_def print_packet_type_def print_payload_def print_last_ip_def
  print_raw_def print_raw_bytes_def raw_bytes_loop_eval print_newline_def

lemmas eval_defs = dump_sync_def dump_iter_def render_packet_def phase_defs print_defs fmt_defs
  sample_defs flag_defs


subsection \<open>Quiet mode\<close>

lemma print_quiet: "flags options AND ptd_quiet \<noteq> 0 \<Longrightarrow> print E L options out text = (0, out)"
  by (simp add: print_def)

lemma separator_quiet:
  "flags options AND ptd_quiet \<noteq> 0 \<Longrightarrow> print_col_separator E L options out = out"
  by (simp add: print_col_separator_def print_quiet)

lemma fillup_quiet:
  "flags options AND ptd_quiet \<noteq> 0 \<Longrightarrow> fillup_column E L options out a w = out"
  by (simp add: fillup_column_def print_quiet)

lemma raw_bytes_loop_quiet:
  "flags options AND ptd_quiet \<noteq> 0 \<Longrightarrow> raw_bytes_loop E L options d sz idx out = out"
proof (induction E L options d sz idx out rule: raw_bytes_loop.induct)
  case (1 E L options d sz idx out)
  show ?case
  proof (cases "idx < sz")
    case True
    with 1 show ?thesis
      by (subst raw_bytes_loop.simps) (simp add: print_quiet Let_def)
  next
    case False
    then show ?thesis by (subst raw_bytes_loop.simps) simp
  qed
qed

lemma print_offset_quiet:
  "flags options AND ptd_quiet \<noteq> 0 \<Longrightarrow>
   stdout (flow_state (print_offset E L options width pos s)) = stdout s"
  by (simp add: print_offset_def print_quiet separator_quiet fillup_quiet Let_def)

lemma print_packet_type_quiet:
  "flags options AND ptd_quiet \<noteq> 0 \<Longrightarrow>
   stdout (flow_state (print_packet_type E L options pos packet s)) = stdout s"
  by (simp add: print_packet_type_def print_quiet)

lemma print_payload_quiet:
  "flags options AND ptd_quiet \<noteq> 0 \<Longrightarrow>
   stdout (flow_state (print_payload E L options pos packet s)) = stdout s"
  by (simp add: print_payload_def print_quiet separator_quiet fillup_quiet Let_def
      split: prod.splits)

lemma print_last_ip_quiet:
  "flags options AND ptd_quiet \<noteq> 0 \<Longrightarrow>
   stdout (flow_state (print_last_ip E L options config pos packet s)) = stdout s"
  by (simp add: print_last_ip_def print_quiet Let_def split: prod.splits)

lemma print_raw_quiet:
  "flags options AND ptd_quiet \<noteq> 0 \<Longrightarrow>
   stdout (flow_state (print_raw E L options packet s)) = stdout s"
  by (simp add: print_raw_def print_raw_bytes_def print_quiet separator_quiet fillup_quiet
      raw_bytes_loop_quiet Let_def)

lemma print_newline_quiet:
  "flags options AND ptd_quiet \<noteq> 0 \<Longrightarrow>
   stdout (flow_state (print_newline E L options s)) = stdout s"
  by (simp add: print_newline_def print_quiet)

lemma then_do_stdout:
  assumes "stdout (flow_state r) = out" and "\<And>s. stdout (flow_state (f s)) = stdout s"
  shows "stdout (flow_state (then_do r f)) = out"
  using assms by (cases r) auto

lemma render_packet_quiet:
  "flags options AND ptd_quiet \<noteq> 0 \<Longrightarrow>
   stdout (flow_state (render_packet E L options config width pos packet s)) = stdout s"
  unfolding render_packet_def
  by (intro then_do_stdout print_offset_quiet print_packet_type_quiet print_payload_quiet
      print_last_ip_quiet print_raw_quiet print_newline_quiet)

lemma dump_sync_stdout: "stdout (control_state (dump_sync L s)) = stdout s"
  by (simp add: dump_sync_def Let_def split: prod.splits)

lemma dump_iter_quiet:
  assumes "flags options AND ptd_quiet \<noteq> 0"
  shows "stdout (control_state (dump_iter E L options config width s)) = stdout s"
proof -
  have r: "\<And>pos packet s1. stdout (control_state
      (case render_packet E L options config width pos packet s1 of
         Goto_sync s2 \<Rightarrow> At_sync s2 | Fallthrough s2 \<Rightarrow> At_loop s2)) = stdout s1"
    using render_packet_quiet[OF assms, of E L config width]
    by (auto split: flow.splits) (metis flow_state.simps)+
  show ?thesis
    by (simp add: dump_iter_def Let_def r split: prod.splits)
qed

lemma dump_step_quiet:
  "flags options AND ptd_quiet \<noteq> 0 \<Longrightarrow>
   stdout (control_state (dump_step E L options config width c)) = stdout (control_state c)"
  by (cases c) (simp_all add: dump_step_def dump_sync_stdout dump_iter_quiet)

lemma dump_steps_quiet:
  "flags options AND ptd_quiet \<noteq> 0 \<Longrightarrow>
   stdout (control_state ((dump_step E L options config width ^^ n) c)) = stdout (control_state c)"
  by (induction n) (simp_all add: dump_step_quiet)

lemma dump_run_quiet:
  "flags options AND ptd_quiet \<noteq> 0 \<Longrightarrow>
   dump_run E L options config width fuel c = Some (site, s') \<Longrightarrow>
   stdout s' = stdout (control_state c)"
proof (induction fuel arbitrary: c)
  case 0
  then show ?case by (cases c) auto
next
  case (Suc fuel)
  show ?case
  proof (cases c)
    case (At_out site0 s0)
    with Suc.prems show ?thesis by simp
  next
    case (At_sync s)
    with Suc.prems have
      "dump_run E L options config width fuel (dump_step E L options config width c) = Some (site, s')"
      by simp
    from Suc.IH [OF Suc.prems(1) this] show ?thesis
      by (simp add: dump_step_quiet [OF Suc.prems(1)])
  next
    case (At_loop s)
    with Suc.prems have
      "dump_run E L options config width fuel (dump_step E L options config width c) = Some (site, s')"
      by simp
    from Suc.IH [OF Suc.prems(1) this] show ?thesis
      by (simp add: dump_step_quiet [OF Suc.prems(1)])
  qed
qed

text \<open>
  Claim C9. With the quiet flag set, \<open>print\<close> returns 0 and leaves the output stream as it
  was, for every library, text and setting of the other flags; no number of steps of the dump
  loop changes the standard output, and a \<open>dump\<close> that returns leaves it as it found it.
\<close>

theorem quiet_writes_nothing:
  assumes "flags options AND ptd_quiet \<noteq> 0"
  shows "print E L options out text = (0, out) \<and>
         stdout (control_state ((dump_step E L options config width ^^ n) c)) =
           stdout (control_state c) \<and>
         (\<forall>r. dump E L trace options fuel lip0 out err = Some r \<longrightarrow> stdout_after r = out)"
proof -
  have "stdout_after r = out" if "dump E L trace options fuel lip0 out err = Some r" for r
    using that dump_run_quiet[OF assms, of E L]
    by (fastforce simp: dump_def Let_def split: option.splits if_splits)
  then show ?thesis using assms by (simp add: print_quiet dump_steps_quiet)
qed

theorem quiet_writes_nothing_witness:
  "flags (options_init\<lparr>flags := 39\<rparr>) AND ptd_quiet \<noteq> 0 \<and>
   print sample_codes (sample_library [] []) (options_init\<lparr>flags := 39\<rparr>) ''abc'' ''de'' = (0, ''abc'') \<and>
   dump sample_codes
     (sample_library [] [Some (sample_packet ppt_tip 3 4660), None, Some (sample_packet ppt_pad 1 0)])
     [] (options_init\<lparr>flags := 39\<rparr>) 20 0 ''abc'' [] =
   Some \<lparr>exit_at = Exit_eos, returned = 0, stdout_after = ''abc'',
         stderr_after = [''[3: error: packet decoding failed (error)]'' @ newline]\<rparr>"
proof -
  have h: "flags (options_init\<lparr>flags := 39\<rparr>) AND ptd_quiet \<noteq> 0"
    by (simp add: flag_defs)
  have w: "col_offset_width (options_init\<lparr>flags := 39\<rparr>) [] = 1"
    by (simp add: col_offset_width_def calc_col_offset_width_def highest_idx_zero flag_defs)
  have run: "dump sample_codes
     (sample_library [] [Some (sample_packet ppt_tip 3 4660), None, Some (sample_packet ppt_pad 1 0)])
     [] (options_init\<lparr>flags := 39\<rparr>) 20 0 ''abc'' [] =
   Some \<lparr>exit_at = Exit_eos, returned = 0, stdout_after = ''abc'',
         stderr_after = [''[3: error: packet decoding failed (error)]'' @ newline]\<rparr>"
    unfolding dump_def w by (simp add: run_simps eval_defs del: dump_run.simps(3))
  from quiet_writes_nothing [OF h, of sample_codes "sample_library [] []" "''abc''" "''de''"]
  show ?thesis using h run by simp
qed

subsection \<open>Synchronisation\<close>






subsection \<open>A packet of size zero\<close>

text \<open>
  Claim C4. When the offset query succeeds and the decoder yields a packet (its status is
  neither the end of the stream nor an error) whose size is zero, the iteration prints nothing,
  appends the diagnostic with the current offset to the error stream, sets the error code to
  \<open>- pte_bad_packet\<close> and goes to \<open>sync\<close>: it neither renders the packet, nor leaves the loop, nor
  starts another iteration, and the next step is the synchronisation.
\<close>

theorem zero_size_packet_resyncs:
  assumes "pt_pkt_get_offset L (decoder s) = (errcode1, pos)" and "0 \<le> errcode1"
    and "pt_pkt_next L (decoder s) = (ret, packet, d1)"
    and "pt_errcode L ret \<noteq> pte_eos E" and "pt_errcode L ret = pte_ok E"
    and "pkt_size packet = 0"
  shows "dump_iter E L options config width s =
           At_sync (s\<lparr>decoder := d1, errcode := - pte_bad_packet E,
                      stderr := stderr s @
                        [diag_pos ''packet decoding failed, packet size is reported to be 0'' pos]\<rparr>) \<and>
         dump_step E L options config width (dump_iter E L options config width s) =
           dump_sync L (s\<lparr>decoder := d1, errcode := - pte_bad_packet E,
                          stderr := stderr s @
                            [diag_pos ''packet decoding failed, packet size is reported to be 0'' pos]\<rparr>)"
proof -
  have "dump_iter E L options config width s =
           At_sync (s\<lparr>decoder := d1, errcode := - pte_bad_packet E,
                      stderr := stderr s @
                        [diag_pos ''packet decoding failed, packet size is reported to be 0'' pos]\<rparr>)"
    using assms by (simp add: dump_iter_def)
  then show ?thesis by (simp add: dump_step_def)
qed

theorem zero_size_packet_resyncs_witness:
  "dump_iter sample_codes (sample_library [] []) options_init sample_config 1
     (sample_state [Some (sample_packet ppt_fup 0 1), Some (sample_packet ppt_pad 1 0)]) =
   At_sync ((sample_state [Some (sample_packet ppt_fup 0 1), Some (sample_packet ppt_pad 1 0)])
              \<lparr>decoder := (0, [Some (sample_packet ppt_pad 1 0)]), errcode := - 5,
               stderr := [''[0: error: packet decoding failed, packet size is reported to be 0]'' @ newline]\<rparr>)"
proof -
  let ?L = "sample_library [] []"
  let ?s = "sample_state [Some (sample_packet ppt_fup 0 1), Some (sample_packet ppt_pad 1 0)]"
  have 1: "pt_pkt_get_offset ?L (decoder ?s) = (0, 0)" by (simp add: sample_defs)
  have 2: "pt_pkt_next ?L (decoder ?s) =
             (0, sample_packet ppt_fup 0 1, (0, [Some (sample_packet ppt_pad 1 0)]))"
    by (simp add: sample_defs)
  have 3: "pt_errcode ?L 0 \<noteq> pte_eos sample_codes" "pt_errcode ?L 0 = pte_ok sample_codes"
    "pkt_size (sample_packet ppt_fup 0 1 :: nat pt_packet) = 0"
    by (simp_all add: sample_defs)
  from zero_size_packet_resyncs [OF 1 _ 2 3, of options_init sample_config 1]
  show ?thesis by (simp add: sample_defs fmt_defs)
qed

subsection \<open>The used widths\<close>

text \<open>Two states that agree except, where allowed, on used widths.\<close>

lemma forget_widths_eq_iff:
  "forget_widths s = forget_widths t \<longleftrightarrow>
     decoder s = decoder t \<and> last_ip s = last_ip t \<and> errcode s = errcode t \<and>
     stdout s = stdout t \<and> stderr s = stderr t"
  by (cases s, cases t) (auto simp: forget_widths_def)

lemma print_offset_widths:
  assumes "forget_widths s = forget_widths t"
  shows "(\<exists>s' t'. print_offset E L options width pos s = Goto_sync s' \<and>
            print_offset E L options width pos t = Goto_sync t' \<and>
            forget_widths s' = forget_widths t') \<or>
         (\<exists>s' t'. print_offset E L options width pos s = Fallthrough s' \<and>
            print_offset E L options width pos t = Fallthrough t' \<and>
            forget_widths s' = forget_widths t')"
  using assms
  by (auto simp: print_offset_def forget_widths_eq_iff Let_def split: prod.splits)

lemma print_packet_type_widths:
  assumes "forget_widths s = forget_widths t"
  shows "(\<exists>s' t'. print_packet_type E L options pos packet s = Goto_sync s' \<and>
            print_packet_type E L options pos packet t = Goto_sync t' \<and>
            forget_widths s' = forget_widths t') \<or>
         (\<exists>s' t'. print_packet_type E L options pos packet s = Fallthrough s' \<and>
            print_packet_type E L options pos packet t = Fallthrough t' \<and>
            forget_widths s' = forget_widths t' \<and>
            col_packettype_width_used s' = col_packettype_width_used t')"
  using assms
  by (auto simp: print_packet_type_def forget_widths_eq_iff Let_def split: prod.splits)

lemma print_payload_widths:
  assumes "forget_widths s = forget_widths t"
    and "col_packettype_width_used s = col_packettype_width_used t"
  shows "(\<exists>s' t'. print_payload E L options pos packet s = Goto_sync s' \<and>
            print_payload E L options pos packet t = Goto_sync t' \<and>
            forget_widths s' = forget_widths t') \<or>
         (\<exists>s' t'. print_payload E L options pos packet s = Fallthrough s' \<and>
            print_payload E L options pos packet t = Fallthrough t' \<and>
            forget_widths s' = forget_widths t' \<and>
            col_packettype_width_used s' = col_packettype_width_used t' \<and>
            col_payload_width_used s' = col_payload_width_used t')"
  using assms
  by (auto simp: print_payload_def forget_widths_eq_iff Let_def split: prod.splits)

lemma print_last_ip_widths:
  assumes "forget_widths s = forget_widths t"
    and "col_packettype_width_used s = col_packettype_width_used t"
    and "col_payload_width_used s = col_payload_width_used t"
  shows "(\<exists>s' t'. print_last_ip E L options config pos packet s = Goto_sync s' \<and>
            print_last_ip E L options config pos packet t = Goto_sync t' \<and>
            forget_widths s' = forget_widths t') \<or>
         (\<exists>s' t'. print_last_ip E L options config pos packet s = Fallthrough s' \<and>
            print_last_ip E L options config pos packet t = Fallthrough t' \<and>
            forget_widths s' = forget_widths t' \<and>
            col_packettype_width_used s' = col_packettype_width_used t' \<and>
            col_payload_width_used s' = col_payload_width_used t')"
  using assms
  by (auto simp: print_last_ip_def forget_widths_eq_iff Let_def split: prod.splits)

lemma print_raw_widths:
  assumes "forget_widths s = forget_widths t"
    and "col_packettype_width_used s = col_packettype_width_used t"
    and "col_payload_width_used s = col_payload_width_used t"
  shows "\<exists>s' t'. print_raw E L options packet s = Fallthrough s' \<and>
            print_raw E L options packet t = Fallthrough t' \<and>
            forget_widths s' = forget_widths t'"
  using assms
  by (auto simp: print_raw_def forget_widths_eq_iff Let_def)

lemma print_newline_widths:
  assumes "forget_widths s = forget_widths t"
  shows "\<exists>s' t'. print_newline E L options s = Fallthrough s' \<and>
            print_newline E L options t = Fallthrough t' \<and>
            forget_widths s' = forget_widths t'"
  using assms
  by (auto simp: print_newline_def forget_widths_eq_iff)

lemma render_packet_widths:
  assumes "forget_widths s = forget_widths t"
  shows "map_flow forget_widths (render_packet E L options config width pos packet s) =
         map_flow forget_widths (render_packet E L options config width pos packet t)"
proof -
  from print_offset_widths [OF assms, of E L options width pos]
  consider (stop) s1 t1 where "print_offset E L options width pos s = Goto_sync s1"
      "print_offset E L options width pos t = Goto_sync t1" "forget_widths s1 = forget_widths t1"
    | (go) s1 t1 where "print_offset E L options width pos s = Fallthrough s1"
      "print_offset E L options width pos t = Fallthrough t1" "forget_widths s1 = forget_widths t1"
    by blast
  then show ?thesis
  proof cases
    case stop
    then show ?thesis by (simp add: render_packet_def)
  next
    case go
    note p1 = go
    from print_packet_type_widths [OF p1(3), of E L options pos packet]
    consider (stop) s2 t2 where "print_packet_type E L options pos packet s1 = Goto_sync s2"
        "print_packet_type E L options pos packet t1 = Goto_sync t2"
        "forget_widths s2 = forget_widths t2"
      | (go) s2 t2 where "print_packet_type E L options pos packet s1 = Fallthrough s2"
        "print_packet_type E L options pos packet t1 = Fallthrough t2"
        "forget_widths s2 = forget_widths t2"
        "col_packettype_width_used s2 = col_packettype_width_used t2"
      by blast
    then show ?thesis
    proof cases
      case stop
      with p1 show ?thesis by (simp add: render_packet_def)
    next
      case go
      note p2 = go
      from print_payload_widths [OF p2(3,4), of E L options pos packet]
      consider (stop) s3 t3 where "print_payload E L options pos packet s2 = Goto_sync s3"
          "print_payload E L options pos packet t2 = Goto_sync t3"
          "forget_widths s3 = forget_widths t3"
        | (go) s3 t3 where "print_payload E L options pos packet s2 = Fallthrough s3"
          "print_payload E L options pos packet t2 = Fallthrough t3"
          "forget_widths s3 = forget_widths t3"
          "col_packettype_width_used s3 = col_packettype_width_used t3"
          "col_payload_width_used s3 = col_payload_width_used t3"
        by blast
      then show ?thesis
      proof cases
        case stop
        with p1 p2 show ?thesis by (simp add: render_packet_def)
      next
        case go
        note p3 = go
        from print_last_ip_widths [OF p3(3,4,5), of E L options config pos packet]
        consider (stop) s4 t4 where "print_last_ip E L options config pos packet s3 = Goto_sync s4"
            "print_last_ip E L options config pos packet t3 = Goto_sync t4"
            "forget_widths s4 = forget_widths t4"
          | (go) s4 t4 where "print_last_ip E L options config pos packet s3 = Fallthrough s4"
            "print_last_ip E L options config pos packet t3 = Fallthrough t4"
            "forget_widths s4 = forget_widths t4"
            "col_packettype_width_used s4 = col_packettype_width_used t4"
            "col_payload_width_used s4 = col_payload_width_used t4"
          by blast
        then show ?thesis
        proof cases
          case stop
          with p1 p2 p3 show ?thesis by (simp add: render_packet_def)
        next
          case go
          note p4 = go
          from print_raw_widths [OF p4(3,4,5), of E L options packet]
          obtain s5 t5 where p5: "print_raw E L options packet s4 = Fallthrough s5"
            "print_raw E L options packet t4 = Fallthrough t5" "forget_widths s5 = forget_widths t5"
            by blast
          from print_newline_widths [OF p5(3), of E L options]
          obtain s6 t6 where p6: "print_newline E L options s5 = Fallthrough s6"
            "print_newline E L options t5 = Fallthrough t6" "forget_widths s6 = forget_widths t6"
            by blast
          from p1 p2 p3 p4 p5 p6 show ?thesis by (simp add: render_packet_def)
        qed
      qed
    qed
  qed
qed

lemma forget_widths_update:
  "forget_widths (s\<lparr>col_offset_width_used := a, col_packettype_width_used := b,
                     col_payload_width_used := c\<rparr>) = forget_widths s"
  by (simp add: forget_widths_def)

lemma dump_iter_widths:
  assumes "forget_widths s = forget_widths t"
  shows "map_control forget_widths (dump_iter E L options config width s) =
         map_control forget_widths (dump_iter E L options config width t)"
proof -
  have r: "map_control forget_widths
             (case render_packet E L options config width pos packet s1 of
                Goto_sync s2 \<Rightarrow> At_sync s2 | Fallthrough s2 \<Rightarrow> At_loop s2) =
           map_control forget_widths
             (case render_packet E L options config width pos packet t1 of
                Goto_sync s2 \<Rightarrow> At_sync s2 | Fallthrough s2 \<Rightarrow> At_loop s2)"
    if "forget_widths s1 = forget_widths t1" for pos packet s1 t1
    using render_packet_widths [OF that, of E L options config width pos packet]
    by (cases "render_packet E L options config width pos packet s1";
        cases "render_packet E L options config width pos packet t1") auto
  have d: "decoder s = decoder t" "stderr s = stderr t"
    using assms by (simp_all add: forget_widths_eq_iff)
  have u: "forget_widths (s\<lparr>decoder := d1, errcode := e\<rparr>) =
           forget_widths (t\<lparr>decoder := d1, errcode := e\<rparr>)" for d1 e
    using assms by (simp add: forget_widths_eq_iff)
  show ?thesis
    unfolding dump_iter_def d
    using assms by (auto simp: Let_def forget_widths_eq_iff intro!: r u split: prod.splits)
qed


text \<open>
  Claim C5, as amended. The three used widths are not reset per packet: they are set to zero
  once, where \<open>dump\<close> is entered, and keep the values of the last packet at the head of the next
  iteration. But each is written from the packet's own output before it is read, so an
  iteration does not depend on the used widths it starts with: started with any three values
  \<open>a\<close>, \<open>b\<close>, \<open>c\<close>, it takes the same branch, writes the same output and diagnostics and leaves the
  same decoder, last-IP state and error code.
\<close>

theorem used_widths_written_before_read:
  "map_control forget_widths
     (dump_iter E L options config width
        (s\<lparr>col_offset_width_used := a, col_packettype_width_used := b,
           col_payload_width_used := c\<rparr>)) =
   map_control forget_widths (dump_iter E L options config width s)"
  by (rule dump_iter_widths) (rule forget_widths_update)

text \<open>
  The claim as it was stated fails: after a \<open>tip\<close> packet with payload \<open>1234\<close> at offset 0 the
  loop is at its head, where the next packet is decoded and rendered, with the used widths 1, 3
  and 4.
\<close>

theorem used_widths_reset_counterexample:
  "dump_iter sample_codes (sample_library [] []) options_init sample_config 1
     (sample_state [Some (sample_packet ppt_tip 3 4660), Some (sample_packet ppt_pad 1 0)]) =
   At_loop \<lparr>decoder = (3, [Some (sample_packet ppt_pad 1 0)]), last_ip = 0, errcode = 0,
            col_offset_width_used = 1, col_packettype_width_used = 3, col_payload_width_used = 4,
            stdout = ''0  tip        1234'' @ newline, stderr = []\<rparr> \<and>
   col_packettype_width_used
     (control_state
        (dump_iter sample_codes (sample_library [] []) options_init sample_config 1
           (sample_state [Some (sample_packet ppt_tip 3 4660), Some (sample_packet ppt_pad 1 0)])))
     \<noteq> 0"
  by (simp add: eval_defs)

subsection \<open>The value returned\<close>

lemma dump_sync_errcode:
  "dump_sync L (s\<lparr>errcode := e\<rparr>) = dump_sync L s"
  by (simp add: dump_sync_def Let_def split: prod.splits)

lemma dump_sync_exit:
  "dump_sync L s = At_out site s' \<Longrightarrow> site = Exit_sync_error \<and> errcode s' < 0"
  by (auto simp: dump_sync_def Let_def split: prod.splits if_splits)

lemma dump_sync_not_sync: "dump_sync L s \<noteq> At_sync s'"
  by (auto simp: dump_sync_def Let_def split: prod.splits if_splits)

lemma dump_iter_exit:
  assumes "fst (pt_pkt_get_offset L (decoder s)) \<le> 0"
    and "dump_iter E L options config width s = At_out site s'"
  shows "(site = Exit_eos \<and> errcode s' = 0) \<or> (site = Exit_offset_error \<and> errcode s' < 0)"
  using assms
  by (auto simp: dump_iter_def Let_def split: prod.splits if_splits flow.splits)

lemma dump_run_exit:
  assumes "\<And>d. fst (pt_pkt_get_offset L d) \<le> 0"
    and "dump_run E L options config width fuel c = Some (site, s')"
    and "\<And>site0 s0. c = At_out site0 s0 \<Longrightarrow> (errcode s0 = 0 \<longleftrightarrow> site0 = Exit_eos)"
  shows "errcode s' = 0 \<longleftrightarrow> site = Exit_eos"
  using assms(2,3)
proof (induction fuel arbitrary: c)
  case 0
  then show ?case by (cases c) auto
next
  case (Suc fuel)
  show ?case
  proof (cases c)
    case (At_sync s)
    with Suc.prems have run: "dump_run E L options config width fuel (dump_sync L s) = Some (site, s')"
      by (simp add: dump_step_def)
    show ?thesis
      by (rule Suc.IH [OF run]) (auto dest: dump_sync_exit)
  next
    case (At_loop s)
    with Suc.prems have run:
      "dump_run E L options config width fuel (dump_iter E L options config width s) = Some (site, s')"
      by (simp add: dump_step_def)
    show ?thesis
      by (rule Suc.IH [OF run]) (use assms(1) in \<open>auto dest!: dump_iter_exit [rotated]\<close>)
  next
    case (At_out site0 s0)
    with Suc.prems show ?thesis by auto
  qed
qed

lemma main_runs_dump:
  assumes "parse_args pt_cpu_parse argv 1 options_init = Args_done options (Some ptfile)"
    and "map_pt ptfile = Some trace"
  shows "main E L pt_cpu_parse map_pt argv fuel lip out =
           map_option (\<lambda>r. Exit_status (- returned r)) (dump E L trace options fuel lip out [])"
  using assms by (simp add: main_def)

text \<open>
  Claim C2. Under the contract of the library that \<open>pt_pkt_get_offset\<close> returns zero on success
  and a negative code otherwise, and with \<open>pte_nomem\<close> not zero: whenever \<open>dump\<close> returns, it
  returns 0 exactly if it left the loop at the decoder's end of stream. When \<open>main\<close> has read its
  arguments and mapped the file, its result is that of \<open>dump\<close> on the file's bytes with the
  options read, negated: whenever \<open>main\<close> returns, \<open>dump\<close> has returned, the exit status is the
  negation of its value, and the exit status is 0 exactly if \<open>dump\<close> left the loop at the end of
  stream. What an iteration left in the error code before it went back to \<open>sync\<close> does not
  matter for the rest of the run.
\<close>

theorem dump_returns_zero_iff_eos:
  assumes "\<And>d. fst (pt_pkt_get_offset L d) \<le> 0" and "pte_nomem E \<noteq> 0"
  shows "(dump E L trace options fuel lip out err = Some r \<longrightarrow>
            (returned r = 0 \<longleftrightarrow> exit_at r = Exit_eos)) \<and>
         (parse_args pt_cpu_parse argv 1 options_init = Args_done options (Some ptfile) \<and>
          map_pt ptfile = Some trace \<longrightarrow>
            main E L pt_cpu_parse map_pt argv fuel lip out =
              map_option (\<lambda>r. Exit_status (- returned r))
                (dump E L trace options fuel lip out []) \<and>
            (\<forall>st. main E L pt_cpu_parse map_pt argv fuel lip out = Some st \<longrightarrow>
               (\<exists>r. dump E L trace options fuel lip out [] = Some r \<and>
                    st = Exit_status (- returned r) \<and>
                    (st = Exit_status 0 \<longleftrightarrow> exit_at r = Exit_eos)))) \<and>
         dump_run E L options config width fuel (At_sync (s\<lparr>errcode := e\<rparr>)) =
           dump_run E L options config width fuel (At_sync s)"
proof -
  have a: "returned r = 0 \<longleftrightarrow> exit_at r = Exit_eos"
    if "dump E L trace options fuel lip out err = Some r" for r err
  proof (cases "pt_pkt_alloc_decoder L
      (if flags options AND ptd_use_cpu \<noteq> 0
       then \<lparr>cfg_trace = trace, cfg_cpu = pt_configure L\<rparr>\<lparr>cfg_cpu := cpu options\<rparr>
       else \<lparr>cfg_trace = trace, cfg_cpu = pt_configure L\<rparr>)")
    case None
    with that assms(2) show ?thesis by (auto simp: dump_def Let_def)
  next
    case (Some d)
    with that obtain site s' where
      run: "dump_run E L options
        (if flags options AND ptd_use_cpu \<noteq> 0
         then \<lparr>cfg_trace = trace, cfg_cpu = pt_configure L\<rparr>\<lparr>cfg_cpu := cpu options\<rparr>
         else \<lparr>cfg_trace = trace, cfg_cpu = pt_configure L\<rparr>)
        (col_offset_width options trace) fuel
        (At_sync \<lparr>decoder = d, last_ip = lip, errcode = 0, col_offset_width_used = 0,
                  col_packettype_width_used = 0, col_payload_width_used = 0,
                  stdout = out, stderr = err\<rparr>) = Some (site, s')"
      and r: "r = \<lparr>exit_at = site, returned = errcode s', stdout_after = stdout s',
                   stderr_after = stderr s'\<rparr>"
      by (auto simp: dump_def Let_def)
    from dump_run_exit [OF assms(1) run] show ?thesis by (simp add: r)
  qed
  have b: "dump_run E L options config width fuel (At_sync (s\<lparr>errcode := e\<rparr>)) =
           dump_run E L options config width fuel (At_sync s)"
    by (cases fuel) (simp_all add: dump_step_def dump_sync_errcode)
  have m: "main E L pt_cpu_parse map_pt argv fuel lip out =
              map_option (\<lambda>r. Exit_status (- returned r))
                (dump E L trace options fuel lip out []) \<and>
            (\<forall>st. main E L pt_cpu_parse map_pt argv fuel lip out = Some st \<longrightarrow>
               (\<exists>r. dump E L trace options fuel lip out [] = Some r \<and>
                    st = Exit_status (- returned r) \<and>
                    (st = Exit_status 0 \<longleftrightarrow> exit_at r = Exit_eos)))"
    if p: "parse_args pt_cpu_parse argv 1 options_init = Args_done options (Some ptfile)"
      and f: "map_pt ptfile = Some trace"
  proof (intro conjI allI impI)
    show eq: "main E L pt_cpu_parse map_pt argv fuel lip out =
              map_option (\<lambda>r. Exit_status (- returned r))
                (dump E L trace options fuel lip out [])"
      by (rule main_runs_dump [where map_pt = map_pt and ptfile = ptfile, OF p f])
    fix st assume "main E L pt_cpu_parse map_pt argv fuel lip out = Some st"
    with eq have "map_option (\<lambda>r. Exit_status (- returned r))
                    (dump E L trace options fuel lip out []) = Some st"
      by simp
    then obtain r where r: "dump E L trace options fuel lip out [] = Some r"
      and st: "st = Exit_status (- returned r)"
      by (cases "dump E L trace options fuel lip out []") auto
    from a [OF r] have "st = Exit_status 0 \<longleftrightarrow> exit_at r = Exit_eos" by (simp add: st)
    with r st show "\<exists>r. dump E L trace options fuel lip out [] = Some r \<and>
                    st = Exit_status (- returned r) \<and>
                    (st = Exit_status 0 \<longleftrightarrow> exit_at r = Exit_eos)"
      by blast
  qed
  from a [of err r] b m show ?thesis by blast
qed

theorem dump_returns_zero_iff_eos_witness:
  "pte_nomem sample_codes \<noteq> 0 \<and>
   parse_args (\<lambda>arg. (0, cpu_zero)) [''ptdump'', ''--fixed-offset-width'', ''x.pt''] 1 options_init =
   Args_done \<lparr>flags = 25, cpu = cpu_zero\<rparr> (Some ''x.pt'') \<and>
   dump sample_codes
     (sample_library [''tip'']
        [Some (sample_packet ppt_pad 1 0), None, Some (sample_packet ppt_fup 0 1),
         Some (sample_packet ppt_tip 3 4660), Some (sample_packet ppt_fup 2 1)])
     [2, 130] \<lparr>flags = 25, cpu = cpu_zero\<rparr> 20 0 [] [] =
   Some \<lparr>exit_at = Exit_eos, returned = 0,
         stdout_after = ''0000000000000000  pad'' @ newline @
                        ''0000000000000002  0000000000000005  fup        1'' @ newline,
         stderr_after =
           [''[1: error: packet decoding failed (error)]'' @ newline,
            ''[2: error: packet decoding failed, packet size is reported to be 0]'' @ newline,
            ''[2: error: cannot print packet type]'' @ newline]\<rparr> \<and>
   main sample_codes
     (sample_library [''tip'']
        [Some (sample_packet ppt_pad 1 0), None, Some (sample_packet ppt_fup 0 1),
         Some (sample_packet ppt_tip 3 4660), Some (sample_packet ppt_fup 2 1)])
     (\<lambda>arg. (0, cpu_zero)) (\<lambda>file. if file = ''x.pt'' then Some [2, 130] else None)
     [''ptdump'', ''--fixed-offset-width'', ''x.pt''] 20 0 [] =
   Some (Exit_status 0) \<and>
   dump sample_codes (sample_library [] [Some (sample_packet ppt_pad 1 0), None])
     [2, 130] \<lparr>flags = 25, cpu = cpu_zero\<rparr> 20 0 [] [] =
   Some \<lparr>exit_at = Exit_sync_error, returned = - 7,
         stdout_after = ''0000000000000000  pad'' @ newline,
         stderr_after =
           [''[1: error: packet decoding failed (error)]'' @ newline,
            ''[2: error: sync error (error)]'' @ newline]\<rparr> \<and>
   main sample_codes (sample_library [] [Some (sample_packet ppt_pad 1 0), None])
     (\<lambda>arg. (0, cpu_zero)) (\<lambda>file. if file = ''x.pt'' then Some [2, 130] else None)
     [''ptdump'', ''--fixed-offset-width'', ''x.pt''] 20 0 [] =
   Some (Exit_status 7)"
proof -
  let ?o = "\<lparr>flags = 25, cpu = cpu_zero\<rparr>"
  let ?argv = "[''ptdump'', ''--fixed-offset-width'', ''x.pt'']"
  let ?cpu = "\<lambda>arg::string. (0::int, cpu_zero)"
  let ?map = "\<lambda>file. if file = ''x.pt'' then Some [2, 130 :: 8 word] else None"
  let ?La = "sample_library [''tip'']
        [Some (sample_packet ppt_pad 1 0), None, Some (sample_packet ppt_fup 0 1),
         Some (sample_packet ppt_tip 3 4660), Some (sample_packet ppt_fup 2 1)]"
  let ?Lb = "sample_library [] [Some (sample_packet ppt_pad 1 0), None]"
  have c: "fst (pt_pkt_get_offset (sample_library bad items) d) \<le> 0" for bad items d
    by (simp add: sample_defs)
  have n: "pte_nomem sample_codes \<noteq> 0" by (simp add: sample_defs)
  have p: "parse_args ?cpu ?argv 1 options_init = Args_done ?o (Some ''x.pt'')"
    by (simp add: parse_args.simps argv_at_def flag_defs usage_def)
  have f: "?map ''x.pt'' = Some [2, 130]" by simp
  have w: "col_offset_width ?o [2, 130] = 16"
    by (simp add: col_offset_width_def col_offset_width_fixed_def flag_defs)
  have r1: "dump sample_codes ?La [2, 130] ?o 20 0 [] [] =
   Some \<lparr>exit_at = Exit_eos, returned = 0,
         stdout_after = ''0000000000000000  pad'' @ newline @
                        ''0000000000000002  0000000000000005  fup        1'' @ newline,
         stderr_after =
           [''[1: error: packet decoding failed (error)]'' @ newline,
            ''[2: error: packet decoding failed, packet size is reported to be 0]'' @ newline,
            ''[2: error: cannot print packet type]'' @ newline]\<rparr>"
    unfolding dump_def w
    by (simp add: run_simps eval_defs del: dump_run.simps(3))
  have r2: "dump sample_codes ?Lb [2, 130] ?o 20 0 [] [] =
   Some \<lparr>exit_at = Exit_sync_error, returned = - 7,
         stdout_after = ''0000000000000000  pad'' @ newline,
         stderr_after =
           [''[1: error: packet decoding failed (error)]'' @ newline,
            ''[2: error: sync error (error)]'' @ newline]\<rparr>"
    unfolding dump_def w
    by (simp add: run_simps eval_defs del: dump_run.simps(3))
  note t1 = dump_returns_zero_iff_eos [where E = sample_codes and trace = "[2, 130]"
      and L = ?La and options = ?o and fuel = 20 and lip = 0 and out = "[]"
      and pt_cpu_parse = ?cpu and map_pt = ?map and argv = ?argv and ptfile = "''x.pt''",
      OF c n, THEN conjunct2, THEN conjunct1, rule_format, OF conjI, OF p f, THEN conjunct1]
  note t2 = dump_returns_zero_iff_eos [where E = sample_codes and trace = "[2, 130]"
      and L = ?Lb and options = ?o and fuel = 20 and lip = 0 and out = "[]"
      and pt_cpu_parse = ?cpu and map_pt = ?map and argv = ?argv and ptfile = "''x.pt''",
      OF c n, THEN conjunct2, THEN conjunct1, rule_format, OF conjI, OF p f, THEN conjunct1]
  have m1: "main sample_codes ?La ?cpu ?map ?argv 20 0 [] = Some (Exit_status 0)"
    unfolding t1 r1 by simp
  have m2: "main sample_codes ?Lb ?cpu ?map ?argv 20 0 [] = Some (Exit_status 7)"
    unfolding t2 r2 by simp
  from n p r1 r2 m1 m2 show ?thesis by simp
qed

subsection \<open>Write failures\<close>














subsection \<open>The raw-bytes column\<close>

lemma print_stream_write:
  assumes "flags options AND ptd_quiet = 0" and "vprintf L = stream_write" and "msg \<noteq> []"
  shows "print E L options out msg = (int (length msg), out @ msg)"
  using assms by (simp add: print_def stream_write_def)

lemma hex_digit_lower: "hex_digit n \<in> lower_hex"
proof -
  have "n mod 16 < length ''0123456789abcdef''" by simp
  then show ?thesis
    unfolding hex_digit_def lower_hex_def by (rule nth_mem)
qed

lemma hex_digits_lower: "set (hex_digits n) \<subseteq> lower_hex"
proof (induction n rule: hex_digits.induct)
  case (1 n)
  show ?case
  proof (cases "n < 16")
    case True
    then show ?thesis by (subst hex_digits.simps) (simp add: hex_digit_lower)
  next
    case False
    with 1 show ?thesis by (subst hex_digits.simps) (simp add: hex_digit_lower)
  qed
qed













subsection \<open>The last-IP enrichment\<close>

lemma hex_digits_length: "0 < k \<Longrightarrow> n < 16 ^ k \<Longrightarrow> length (hex_digits n) \<le> k"
proof (induction k arbitrary: n)
  case 0
  then show ?case by simp
next
  case (Suc k)
  show ?case
  proof (cases "n < 16")
    case True
    then show ?thesis by (subst hex_digits.simps) simp
  next
    case False
    then have k: "0 < k" using Suc.prems by (cases k) auto
    from Suc.prems have "n div 16 < 16 ^ k"
      by (simp add: less_mult_imp_div_less mult.commute)
    from Suc.IH [OF k this] False show ?thesis by (subst hex_digits.simps) simp
  qed
qed

lemma fmt_hex_address:
  "length (fmt_hex 16 (unat (ip::64 word))) = 16 \<and> set (fmt_hex 16 (unat ip)) \<subseteq> lower_hex"
proof -
  have "unat ip < 2 ^ 64" using unsigned_less [of ip] by simp
  also have "(2::nat) ^ 64 = 16 ^ 16" by simp
  finally have "length (hex_digits (unat ip)) \<le> 16" by (intro hex_digits_length) simp_all
  moreover have "CHR ''0'' \<in> lower_hex" by (simp add: lower_hex_def)
  ultimately show ?thesis
    using hex_digits_lower [of "unat ip"] by (auto simp: fmt_hex_def)
qed

lemma print_last_ip_other_type:
  "pkt_type packet \<notin> {ppt_tip, ppt_tip_pge, ppt_tip_pgd, ppt_fup} \<Longrightarrow>
   print_last_ip E L options config pos packet s = Fallthrough s"
  by (simp add: print_last_ip_def)

lemma print_last_ip_text:
  assumes "flags options AND ptd_quiet = 0" and "vprintf L = stream_write"
  shows "\<exists>enrich.
           stdout (flow_state (print_last_ip E L options config pos packet s)) = stdout s @ enrich \<and>
           (enrich = [] \<or>
            flags options AND ptd_show_last_ip \<noteq> 0 \<and>
            pkt_type packet \<in> {ppt_tip, ppt_tip_pge, ppt_tip_pgd, ppt_fup} \<and>
            (enrich = '', ip=<suppressed>'' \<or>
             enrich = '', ip=0x'' @
               fmt_hex 16 (unat (snd (pt_last_ip_query L
                 (snd (pt_last_ip_update_ip L (last_ip s) (pkt_payload packet) config)))))))"
proof -
  note pr = print_stream_write [OF assms]
  obtain r1 lip where u: "pt_last_ip_update_ip L (last_ip s) (pkt_payload packet) config = (r1, lip)"
    by (cases "pt_last_ip_update_ip L (last_ip s) (pkt_payload packet) config")
  obtain r2 ip where q: "pt_last_ip_query L lip = (r2, ip)"
    by (cases "pt_last_ip_query L lip")
  define enrich where "enrich =
      (if flags options AND ptd_show_last_ip \<noteq> 0 \<and>
          pkt_type packet \<in> {ppt_tip, ppt_tip_pge, ppt_tip_pgd, ppt_fup} \<and>
          r1 \<notin> {- pte_invalid E, - pte_bad_packet E, - pte_noip E} \<and>
          r2 \<notin> {- pte_invalid E, - pte_noip E}
       then (if r2 = - pte_ip_suppressed E then '', ip=<suppressed>''
             else if r2 = 0 then '', ip=0x'' @ fmt_hex 16 (unat ip) else [])
       else [])"
  have "stdout (flow_state (print_last_ip E L options config pos packet s)) = stdout s @ enrich"
    by (simp add: print_last_ip_def u q pr Let_def enrich_def)
  moreover have "enrich = [] \<or>
            flags options AND ptd_show_last_ip \<noteq> 0 \<and>
            pkt_type packet \<in> {ppt_tip, ppt_tip_pge, ppt_tip_pgd, ppt_fup} \<and>
            (enrich = '', ip=<suppressed>'' \<or>
             enrich = '', ip=0x'' @
               fmt_hex 16 (unat (snd (pt_last_ip_query L
                 (snd (pt_last_ip_update_ip L (last_ip s) (pkt_payload packet) config))))))"
    by (simp add: u q enrich_def del: insert_iff)
  ultimately show ?thesis by blast
qed


lemma print_payload_text:
  assumes "flags options AND ptd_quiet = 0" and "vprintf L = stream_write"
    and "print_payload E L options pos packet s = Fallthrough s'"
  shows "\<exists>sep. stdout s' = stdout s @ sep @ snd (pt_print_fill_payload_str L packet) \<and>
               set sep \<subseteq> {CHR '' ''} \<and> last_ip s' = last_ip s"
proof -
  note pr = print_stream_write [OF assms(1,2)]
  obtain r str where f: "pt_print_fill_payload_str L packet = (r, str)"
    by (cases "pt_print_fill_payload_str L packet")
  have sep: "print_col_separator E L options o1 = o1 @ ''  ''" for o1
    by (simp add: print_col_separator_def pr)
  have fill: "\<exists>p. fillup_column E L options o1 a w = o1 @ p \<and> set p \<subseteq> {CHR '' ''}" for o1 a w
    by (auto simp: fillup_column_def pr fmt_pad_def)
  then obtain p where p: "fillup_column E L options (stdout s) (col_packettype_width_used s)
      col_packettype_width = stdout s @ p" "set p \<subseteq> {CHR '' ''}"
    by blast
  have out: "snd (print E L options o1 str) = o1 @ str" for o1
    by (cases "str = []") (simp_all add: pr, simp add: print_def assms(1,2) stream_write_def)
  from assms(3) have "\<not> r < 0"
    by (auto simp: print_payload_def f Let_def split: prod.splits if_splits)
  with assms(3) have s': "stdout s' = (if 0 < r then stdout s @ p @ ''  '' else stdout s) @ str"
    and l: "last_ip s' = last_ip s"
    using out by (auto simp: print_payload_def f Let_def sep p(1) case_prod_beta split: if_splits)
  have "stdout s' = stdout s @ (if 0 < r then p @ ''  '' else []) @ str"
    "set (if 0 < r then p @ ''  '' else []) \<subseteq> {CHR '' ''}"
    using s' p(2) by auto
  with l show ?thesis unfolding f by (metis snd_conv)
qed

text \<open>
  Claim C8. The last-IP block leaves the state alone for every packet type other than
  \<open>tip\<close>, \<open>tip.pge\<close>, \<open>tip.pgd\<close> and \<open>fup\<close>, whatever the flags, the library and the stream. Not
  in quiet mode and on an output stream that takes every write, what the block appends to the
  output is nothing, or, only with the last-IP flag set and for one of the four types, the text
  \<open>, ip=<suppressed>\<close> or the text \<open>, ip=0x\<close> with the queried address as 16 lowercase
  hexadecimal digits; it comes right after the payload text, which the payload block wrote last.
\<close>

theorem last_ip_enrichment:
  assumes "flags options AND ptd_quiet = 0" and "vprintf L = stream_write"
  shows "(pkt_type packet \<notin> {ppt_tip, ppt_tip_pge, ppt_tip_pgd, ppt_fup} \<longrightarrow>
            print_last_ip E L options config pos packet s = Fallthrough s) \<and>
         (\<exists>enrich.
            stdout (flow_state (print_last_ip E L options config pos packet s)) = stdout s @ enrich \<and>
            (enrich = [] \<or>
             flags options AND ptd_show_last_ip \<noteq> 0 \<and>
             pkt_type packet \<in> {ppt_tip, ppt_tip_pge, ppt_tip_pgd, ppt_fup} \<and>
             (enrich = '', ip=<suppressed>'' \<or>
              enrich = '', ip=0x'' @
                fmt_hex 16 (unat (snd (pt_last_ip_query L
                  (snd (pt_last_ip_update_ip L (last_ip s) (pkt_payload packet) config)))))))) \<and>
         length (fmt_hex 16 (unat (ip::64 word))) = 16 \<and>
         set (fmt_hex 16 (unat ip)) \<subseteq> lower_hex \<and>
         (print_payload E L options pos packet s0 = Fallthrough s \<longrightarrow>
            (\<exists>sep. stdout s = stdout s0 @ sep @ snd (pt_print_fill_payload_str L packet) \<and>
                   set sep \<subseteq> {CHR '' ''}))"
proof -
  have "\<exists>sep. stdout s = stdout s0 @ sep @ snd (pt_print_fill_payload_str L packet) \<and>
                   set sep \<subseteq> {CHR '' ''}"
    if "print_payload E L options pos packet s0 = Fallthrough s"
    using print_payload_text [OF assms that] by blast
  then show ?thesis
    using print_last_ip_other_type [of packet E L options config pos s]
      print_last_ip_text [OF assms, of E config pos packet s] fmt_hex_address [of ip]
    by blast
qed

theorem last_ip_enrichment_witness:
  "flags (options_init\<lparr>flags := 21\<rparr>) AND ptd_quiet = 0 \<and>
   vprintf (sample_library [] []) = stream_write \<and>
   print_payload sample_codes (sample_library [] []) (options_init\<lparr>flags := 21\<rparr>) 0
     (sample_packet ppt_tip 3 4660)
     ((sample_state [])\<lparr>col_packettype_width_used := 3, stdout := ''0  tip''\<rparr>) =
   Fallthrough ((sample_state [])\<lparr>col_packettype_width_used := 3, col_payload_width_used := 4,
                  stdout := ''0  tip        1234''\<rparr>) \<and>
   print_last_ip sample_codes (sample_library [] []) (options_init\<lparr>flags := 21\<rparr>) sample_config 0
     (sample_packet ppt_tip 3 4660)
     ((sample_state [])\<lparr>col_packettype_width_used := 3, col_payload_width_used := 4,
                  stdout := ''0  tip        1234''\<rparr>) =
   Fallthrough ((sample_state [])\<lparr>last_ip := 4660, col_packettype_width_used := 3,
                  col_payload_width_used := 27,
                  stdout := ''0  tip        1234, ip=0x0000000000001234''\<rparr>) \<and>
   print_last_ip sample_codes (sample_library [] []) (options_init\<lparr>flags := 21\<rparr>) sample_config 0
     (sample_packet (ppt_other 0) 3 4660)
     ((sample_state [])\<lparr>col_packettype_width_used := 3, col_payload_width_used := 4,
                  stdout := ''0  psb        1234''\<rparr>) =
   Fallthrough ((sample_state [])\<lparr>col_packettype_width_used := 3, col_payload_width_used := 4,
                  stdout := ''0  psb        1234''\<rparr>)"
proof -
  let ?o = "options_init\<lparr>flags := 21\<rparr>"
  let ?L = "sample_library [] [] :: (sample_decoder, nat, string, nat) pt_library"
  let ?s = "(sample_state [])\<lparr>col_packettype_width_used := 3, col_payload_width_used := 4,
                  stdout := ''0  tip        1234''\<rparr>"
  let ?t = "(sample_state [])\<lparr>col_packettype_width_used := 3, col_payload_width_used := 4,
                  stdout := ''0  psb        1234''\<rparr>"
  have h1: "flags ?o AND ptd_quiet = 0" by (simp add: flag_defs)
  have h2: "vprintf ?L = stream_write"
    by (simp add: sample_library_def stream_write_failing_def fun_eq_iff)
  have p: "print_payload sample_codes ?L ?o 0 (sample_packet ppt_tip 3 4660)
     ((sample_state [])\<lparr>col_packettype_width_used := 3, stdout := ''0  tip''\<rparr>) = Fallthrough ?s"
    by (simp add: phase_defs print_defs fmt_defs sample_defs flag_defs)
  have e: "print_last_ip sample_codes ?L ?o sample_config 0 (sample_packet ppt_tip 3 4660) ?s =
   Fallthrough ((sample_state [])\<lparr>last_ip := 4660, col_packettype_width_used := 3,
                  col_payload_width_used := 27,
                  stdout := ''0  tip        1234, ip=0x0000000000001234''\<rparr>)"
    by (simp add: phase_defs print_defs fmt_defs sample_defs flag_defs)
  have n: "pkt_type (sample_packet (ppt_other 0) 3 4660 :: nat pt_packet)
      \<notin> {ppt_tip, ppt_tip_pge, ppt_tip_pgd, ppt_fup}"
    by (simp add: sample_packet_def)
  from last_ip_enrichment [OF h1 h2, where E = sample_codes and config = sample_config and pos = 0
      and packet = "sample_packet (ppt_other 0) 3 4660" and s = ?t] n
  have o: "print_last_ip sample_codes ?L ?o sample_config 0 (sample_packet (ppt_other 0) 3 4660) ?t =
      Fallthrough ?t"
    by blast
  from last_ip_enrichment [OF h1 h2, where E = sample_codes and config = sample_config and pos = 0
      and packet = "sample_packet ppt_tip 3 4660" and s = ?s
      and ?s0.0 = "(sample_state [])\<lparr>col_packettype_width_used := 3, stdout := ''0  tip''\<rparr>"]
    h1 h2 p e o
  show ?thesis by simp
qed

subsection \<open>The command line\<close>

text \<open>
  Claim C10. When \<open>--cpu\<close> is the last argument, the argument loop of \<open>main\<close> steps the
  index to \<open>argc\<close> and hands \<open>argv[argc]\<close>, the null pointer that ends the argument vector, to
  \<open>strcmp\<close>: the loop does not end in the usage error. The command line \<open>ptdump --cpu\<close> reaches
  this, for every library, file system and fuel.
\<close>

theorem cpu_without_value:
  "(argv_at argv idx = Some ''--cpu'' \<and> Suc idx = length argv \<longrightarrow>
      parse_args pt_cpu_parse argv idx options = Strcmp_null_pointer \<and>
      parse_args pt_cpu_parse argv idx options \<noteq> Main_returns usage) \<and>
   main E L pt_cpu_parse map_pt [''ptdump'', ''--cpu''] fuel lip out = Some Undefined_behaviour"
proof -
  have a: "parse_args pt_cpu_parse argv idx options = Strcmp_null_pointer"
    if "argv_at argv idx = Some ''--cpu''" "Suc idx = length argv" for argv idx options
  proof -
    from that(2) have "argv_at argv (idx + 1) = None" by (simp add: argv_at_def)
    with that(1) show ?thesis by (subst parse_args.simps) simp
  qed
  have "parse_args pt_cpu_parse [''ptdump'', ''--cpu''] 1 options_init = Strcmp_null_pointer"
    by (rule a) (simp_all add: argv_at_def)
  then have "main E L pt_cpu_parse map_pt [''ptdump'', ''--cpu''] fuel lip out =
      Some Undefined_behaviour"
    by (simp add: main_def)
  with a show ?thesis by simp
qed

theorem cpu_without_value_witness:
  "argv_at [''ptdump'', ''--raw'', ''--cpu''] 2 = Some ''--cpu'' \<and>
   Suc 2 = length [''ptdump'', ''--raw'', ''--cpu''] \<and>
   parse_args (\<lambda>arg. (0, cpu_zero)) [''ptdump'', ''--raw'', ''--cpu''] 2
     (options_init\<lparr>flags := flags options_init OR ptd_show_raw_bytes\<rparr>) = Strcmp_null_pointer"
proof -
  have h: "argv_at [''ptdump'', ''--raw'', ''--cpu''] 2 = Some ''--cpu''"
    "Suc 2 = length [''ptdump'', ''--raw'', ''--cpu'']"
    by (simp_all add: argv_at_def)
  from cpu_without_value [where argv = "[''ptdump'', ''--raw'', ''--cpu'']" and idx = 2
      and pt_cpu_parse = "\<lambda>arg. (0, cpu_zero)"
      and options = "options_init\<lparr>flags := flags options_init OR ptd_show_raw_bytes\<rparr>",
      THEN conjunct1] h
  show ?thesis by simp
qed

lemma parse_args_example:
  "parse_args (\<lambda>arg. (0, cpu_zero)) [''ptdump'', ''--raw'', ''--cpu''] 1 options_init = Strcmp_null_pointer"
  "parse_args (\<lambda>arg. (0, cpu_zero)) [''ptdump'', ''--raw'', ''--cpu'', ''auto'', ''x.pt''] 1 options_init = 
     Args_done (options_init\<lparr>flags := 3\<rparr>) (Some ''x.pt'')"
  "parse_args (\<lambda>arg. (0, cpu_zero)) [''ptdump'', ''x.pt'', ''--raw''] 1 options_init = Main_returns usage"
  "parse_args (\<lambda>arg. (0, cpu_zero)) [''ptdump'', ''--bogus''] 1 options_init = Main_returns usage"
  "parse_args (\<lambda>arg. (0, cpu_zero)) [''ptdump''] 1 options_init = Args_done options_init None"
  by (simp_all add: parse_args.simps argv_at_def flag_defs usage_def)



end
